theory Spec2Isabelle
  imports Main
begin

section \<open>JavaScript values used by the authentication core\<close>

text \<open>
  A JavaScript string that may be \<^verbatim>\<open>undefined\<close> or \<^verbatim>\<open>null\<close> is a
  \<open>string option\<close>. The conditions \<^verbatim>\<open>if (x)\<close> and \<^verbatim>\<open>!x\<close> test truthiness:
  \<^verbatim>\<open>undefined\<close>, \<^verbatim>\<open>null\<close> and the empty string are falsy, every other string is
  truthy.
\<close>

definition truthy :: "string option \<Rightarrow> bool" where
  "truthy v = (case v of None \<Rightarrow> False | Some s \<Rightarrow> s \<noteq> [])"

text \<open>\<^verbatim>\<open>a || b\<close> on strings: \<open>a\<close> when it is truthy, \<open>b\<close> otherwise.\<close>

definition or_else :: "string option \<Rightarrow> string \<Rightarrow> string" where
  "or_else v d = (case v of None \<Rightarrow> d | Some s \<Rightarrow> if s \<noteq> [] then s else d)"

text \<open>
  A thrown value. Everything the AWS SDK, the crypto module and openid-client reject or
  throw with is an \<^verbatim>\<open>Error\<close> object; the code reads only its \<^verbatim>\<open>message\<close>.
  A computation that may throw returns \<open>js_error + 'a\<close>, with \<open>Inl\<close> the exception
  that propagates to the caller.
\<close>

datatype js_error = Error (message: string)

section \<open>utils/cognito-config.js: the client configuration\<close>

type_synonym env = "string \<rightharpoonup> string"

record cognitoConfig =
  UserPoolId :: string
  ClientId :: string
  ClientSecret :: "string option"
  Region :: string
  IssuerUrl :: string
  RedirectUri :: string
  ResponseTypes :: "string list"

text \<open>\<^verbatim>\<open>process.env.X || d\<close>\<close>

definition env_or :: "env \<Rightarrow> string \<Rightarrow> string \<Rightarrow> string" where
  "env_or e k d = or_else (e k) d"

definition load_cognitoConfig :: "env \<Rightarrow> cognitoConfig" where
  "load_cognitoConfig e =
    \<lparr> UserPoolId = env_or e ''COGNITO_USER_POOL_ID'' ''us-east-1_mhu6JL75g'',
      ClientId = env_or e ''COGNITO_CLIENT_ID'' ''3pgi8im0do3ahfdqc17vgpujqb'',
      ClientSecret = e ''COGNITO_CLIENT_SECRET'',
      Region = env_or e ''AWS_REGION'' ''us-east-1'',
      IssuerUrl = env_or e ''COGNITO_ISSUER_URL''
        (''https://cognito-idp.'' @ env_or e ''AWS_REGION'' ''us-east-1'' @ ''.amazonaws.com/''
          @ env_or e ''COGNITO_USER_POOL_ID'' ''us-east-1_mhu6JL75g''),
      RedirectUri = env_or e ''COGNITO_REDIRECT_URI'' ''https://d84l1y8p4kdic.cloudfront.net'',
      ResponseTypes = [''code''] \<rparr>"

section \<open>utils/auth-service.js: the secret hash\<close>

text \<open>
  Node's \<^verbatim>\<open>crypto\<close> module is a parameter: \<open>hmac alg key msg enc\<close> is
  \<^verbatim>\<open>crypto.createHmac(alg, key).update(msg).digest(enc)\<close>.
\<close>

type_synonym hmac_fn = "string \<Rightarrow> string \<Rightarrow> string \<Rightarrow> string \<Rightarrow> string"

text \<open>\<^verbatim>\<open>calculateSecretHash(username)\<close>; \<open>None\<close> is the \<^verbatim>\<open>null\<close> it returns.\<close>

definition calculateSecretHash :: "hmac_fn \<Rightarrow> cognitoConfig \<Rightarrow> string \<Rightarrow> string option" where
  "calculateSecretHash hmac cfg username =
    (if \<not> truthy (ClientSecret cfg) then None
     else
       let message = username @ cognitoConfig.ClientId cfg
       in Some (hmac ''sha256'' (the (ClientSecret cfg)) message ''base64''))"

section \<open>utils/auth-service.js: the identity provider adapter\<close>

text \<open>
  The result objects of the adapter: \<^verbatim>\<open>{success: true, ...payload}\<close> is \<open>Success payload\<close>
  and \<^verbatim>\<open>{success: false, error: msg}\<close> is \<open>Failure msg\<close>, an object with no other
  property.
\<close>

datatype 'a result = Success (payload: 'a) | Failure (error: string)

definition success :: "'a result \<Rightarrow> bool" where
  "success r = (case r of Success _ \<Rightarrow> True | Failure _ \<Rightarrow> False)"

text \<open>
  \<^verbatim>\<open>try { body } catch (error) { handler }\<close>: the handler runs on the exception of the
  body, and what the handler throws propagates.
\<close>

definition try_catch :: "js_error + 'a \<Rightarrow> (js_error \<Rightarrow> js_error + 'a) \<Rightarrow> js_error + 'a" where
  "try_catch body handler = (case body of Inl e \<Rightarrow> handler e | Inr v \<Rightarrow> Inr v)"

text \<open>The parameter objects sent to the provider; an absent property is \<open>None\<close>.\<close>

record signUp_params =
  ClientId :: string
  Username :: string
  Password :: string
  UserAttributes :: "(string \<times> string) list"
  SecretHash :: "string option"

record confirmSignUp_params =
  ClientId :: string
  Username :: string
  ConfirmationCode :: string
  SecretHash :: "string option"

record resendConfirmationCode_params =
  ClientId :: string
  Username :: string
  SecretHash :: "string option"

record initiateAuth_params =
  AuthFlow :: string
  ClientId :: string
  AuthParameters :: "string \<rightharpoonup> string"

record accessToken_params =
  AccessToken :: string

text \<open>The provider's responses, as far as the adapter reads them.\<close>

record codeDeliveryDetails =
  Destination :: "string option"
  DeliveryMedium :: "string option"
  AttributeName :: "string option"

record signUp_response =
  UserSub :: "string option"
  CodeDeliveryDetails :: "codeDeliveryDetails option"

record resendConfirmationCode_response =
  CodeDeliveryDetails :: "codeDeliveryDetails option"

record authenticationResult =
  AccessToken :: "string option"
  IdToken :: "string option"
  RefreshToken :: "string option"
  ExpiresIn :: "int option"

record initiateAuth_response =
  AuthenticationResult :: "authenticationResult option"

record getUser_response =
  Username :: string
  UserAttributes :: "(string \<times> string) list"

text \<open>
  \<^verbatim>\<open>cognitoISP\<close>, the SDK client: each method with \<^verbatim>\<open>.promise()\<close> awaited either
  rejects with an error (a network failure, or an error the provider reports) or resolves
  with a response. The provider is outside the program, so it is a parameter.
\<close>

record cognitoISP =
  signUp :: "signUp_params \<Rightarrow> js_error + signUp_response"
  confirmSignUp :: "confirmSignUp_params \<Rightarrow> js_error + unit"
  resendConfirmationCode ::
    "resendConfirmationCode_params \<Rightarrow> js_error + resendConfirmationCode_response"
  initiateAuth :: "initiateAuth_params \<Rightarrow> js_error + initiateAuth_response"
  globalSignOut :: "accessToken_params \<Rightarrow> js_error + unit"
  getUser :: "accessToken_params \<Rightarrow> js_error + getUser_response"

text \<open>The payloads of the adapter's success objects.\<close>

record signUp_result =
  userSub :: "string option"
  codeDeliveryDetails :: "codeDeliveryDetails option"

record signIn_result =
  accessToken :: "string option"
  idToken :: "string option"
  refreshToken :: "string option"
  expiresIn :: "int option"

record refreshToken_result =
  accessToken :: "string option"
  idToken :: "string option"
  expiresIn :: "int option"

text \<open>
  The session of express-session, with the four properties the core reads and writes, and
  the Express request with the properties the middleware and the callback route touch
  (middleware/auth.js, app.js).
\<close>

type_synonym userinfo = "(string \<times> string) list"

record session_tokens =
  accessToken :: "string option"
  idToken :: "string option"
  refreshToken :: "string option"

record session =
  nonce :: "string option"
  state :: "string option"
  userInfo :: "userinfo option"
  tokens :: "session_tokens option"

record request =
  headers :: "string \<rightharpoonup> string"
  url :: string
  user :: "getUser_response option"
  accessToken :: "string option"
  session :: session

subsection \<open>signUp\<close>

text \<open>The \<^verbatim>\<open>params\<close> object of \<^verbatim>\<open>signUp\<close> as it stands when the request is sent.\<close>

definition signUp_request ::
  "hmac_fn \<Rightarrow> cognitoConfig \<Rightarrow> string \<Rightarrow> string \<Rightarrow> string \<Rightarrow> signUp_params" where
  "signUp_request hmac cfg username email password =
    (let params =
       \<lparr> signUp_params.ClientId = cognitoConfig.ClientId cfg,
         signUp_params.Username = username,
         signUp_params.Password = password,
         signUp_params.UserAttributes = [(''email'', email), (''preferred_username'', username)],
         signUp_params.SecretHash = None \<rparr>;
       secretHash = calculateSecretHash hmac cfg username
     in if truthy secretHash then params\<lparr>signUp_params.SecretHash := secretHash\<rparr> else params)"

definition signUp ::
  "hmac_fn \<Rightarrow> cognitoConfig \<Rightarrow> cognitoISP \<Rightarrow> string \<Rightarrow> string \<Rightarrow> string
    \<Rightarrow> js_error + signUp_result result" where
  "signUp hmac cfg isp username email password =
    try_catch
      (case cognitoISP.signUp isp (signUp_request hmac cfg username email password) of
         Inl e \<Rightarrow> Inl e
       | Inr result \<Rightarrow>
           Inr (Success \<lparr> userSub = UserSub result,
                  signUp_result.codeDeliveryDetails = signUp_response.CodeDeliveryDetails result \<rparr>))
      (\<lambda>error. Inr (Failure (or_else (Some (message error)) ''Sign up failed'')))"

subsection \<open>confirmSignUp\<close>

definition confirmSignUp_request ::
  "hmac_fn \<Rightarrow> cognitoConfig \<Rightarrow> string \<Rightarrow> string \<Rightarrow> confirmSignUp_params" where
  "confirmSignUp_request hmac cfg username code =
    (let params =
       \<lparr> confirmSignUp_params.ClientId = cognitoConfig.ClientId cfg,
         confirmSignUp_params.Username = username,
         confirmSignUp_params.ConfirmationCode = code,
         confirmSignUp_params.SecretHash = None \<rparr>;
       secretHash = calculateSecretHash hmac cfg username
     in if truthy secretHash then params\<lparr>confirmSignUp_params.SecretHash := secretHash\<rparr>
        else params)"

definition confirmSignUp ::
  "hmac_fn \<Rightarrow> cognitoConfig \<Rightarrow> cognitoISP \<Rightarrow> string \<Rightarrow> string \<Rightarrow> js_error + string result" where
  "confirmSignUp hmac cfg isp username code =
    try_catch
      (case cognitoISP.confirmSignUp isp (confirmSignUp_request hmac cfg username code) of
         Inl e \<Rightarrow> Inl e
       | Inr _ \<Rightarrow> Inr (Success ''Email verified successfully''))
      (\<lambda>error. Inr (Failure (or_else (Some (message error)) ''Email verification failed'')))"

subsection \<open>resendConfirmationCode\<close>

definition resendConfirmationCode_request ::
  "hmac_fn \<Rightarrow> cognitoConfig \<Rightarrow> string \<Rightarrow> resendConfirmationCode_params" where
  "resendConfirmationCode_request hmac cfg username =
    (let params =
       \<lparr> resendConfirmationCode_params.ClientId = cognitoConfig.ClientId cfg,
         resendConfirmationCode_params.Username = username,
         resendConfirmationCode_params.SecretHash = None \<rparr>;
       secretHash = calculateSecretHash hmac cfg username
     in if truthy secretHash
        then params\<lparr>resendConfirmationCode_params.SecretHash := secretHash\<rparr>
        else params)"

definition resendConfirmationCode ::
  "hmac_fn \<Rightarrow> cognitoConfig \<Rightarrow> cognitoISP \<Rightarrow> string
    \<Rightarrow> js_error + codeDeliveryDetails option result" where
  "resendConfirmationCode hmac cfg isp username =
    try_catch
      (case cognitoISP.resendConfirmationCode isp
              (resendConfirmationCode_request hmac cfg username) of
         Inl e \<Rightarrow> Inl e
       | Inr result \<Rightarrow>
           Inr (Success (resendConfirmationCode_response.CodeDeliveryDetails result)))
      (\<lambda>error. Inr (Failure (or_else (Some (message error))
                                 ''Failed to resend verification code'')))"

subsection \<open>signIn\<close>

definition signIn_request ::
  "hmac_fn \<Rightarrow> cognitoConfig \<Rightarrow> string \<Rightarrow> string \<Rightarrow> initiateAuth_params" where
  "signIn_request hmac cfg username password =
    (let authParameters = [''USERNAME'' \<mapsto> username, ''PASSWORD'' \<mapsto> password];
         secretHash = calculateSecretHash hmac cfg username
     in \<lparr> AuthFlow = ''USER_PASSWORD_AUTH'',
          initiateAuth_params.ClientId = cognitoConfig.ClientId cfg,
          AuthParameters =
            (if truthy secretHash then authParameters(''SECRET_HASH'' \<mapsto> the secretHash)
             else authParameters) \<rparr>)"

definition signIn ::
  "hmac_fn \<Rightarrow> cognitoConfig \<Rightarrow> cognitoISP \<Rightarrow> string \<Rightarrow> string
    \<Rightarrow> js_error + signIn_result result" where
  "signIn hmac cfg isp username password =
    try_catch
      (case initiateAuth isp (signIn_request hmac cfg username password) of
         Inl e \<Rightarrow> Inl e
       | Inr result \<Rightarrow>
           (case AuthenticationResult result of
              Some auth \<Rightarrow>
                Inr (Success \<lparr> signIn_result.accessToken = authenticationResult.AccessToken auth,
                       signIn_result.idToken = IdToken auth,
                       signIn_result.refreshToken = RefreshToken auth,
                       signIn_result.expiresIn = ExpiresIn auth \<rparr>)
            | None \<Rightarrow> Inr (Failure ''Authentication failed'')))
      (\<lambda>error. Inr (Failure (or_else (Some (message error)) ''Sign in failed'')))"

subsection \<open>signOut, getUserInfo\<close>

definition signOut :: "cognitoISP \<Rightarrow> string \<Rightarrow> js_error + string result" where
  "signOut isp token =
    try_catch
      (case globalSignOut isp \<lparr> accessToken_params.AccessToken = token \<rparr> of
         Inl e \<Rightarrow> Inl e
       | Inr _ \<Rightarrow> Inr (Success ''Signed out successfully''))
      (\<lambda>error. Inr (Failure (or_else (Some (message error)) ''Sign out failed'')))"

text \<open>
  \<^verbatim>\<open>result.UserAttributes.forEach(attr => { userInfo[attr.Name] = attr.Value })\<close> on an
  empty object: a later attribute of the same name overwrites an earlier one.
\<close>

definition flatten_attributes :: "(string \<times> string) list \<Rightarrow> (string \<rightharpoonup> string)" where
  "flatten_attributes attrs = fold (\<lambda>attr userInfo. userInfo(fst attr \<mapsto> snd attr)) attrs Map.empty"

definition getUserInfo :: "cognitoISP \<Rightarrow> string \<Rightarrow> js_error + (string \<rightharpoonup> string) result" where
  "getUserInfo isp token =
    try_catch
      (case getUser isp \<lparr> accessToken_params.AccessToken = token \<rparr> of
         Inl e \<Rightarrow> Inl e
       | Inr result \<Rightarrow>
           Inr (Success (flatten_attributes (getUser_response.UserAttributes result))))
      (\<lambda>error. Inr (Failure (or_else (Some (message error)) ''Failed to get user information'')))"

subsection \<open>refreshToken\<close>

definition refreshToken_request :: "cognitoConfig \<Rightarrow> string \<Rightarrow> initiateAuth_params" where
  "refreshToken_request cfg token =
    \<lparr> AuthFlow = ''REFRESH_TOKEN_AUTH'',
      initiateAuth_params.ClientId = cognitoConfig.ClientId cfg,
      AuthParameters = [''REFRESH_TOKEN'' \<mapsto> token] \<rparr>"

definition refreshToken ::
  "cognitoConfig \<Rightarrow> cognitoISP \<Rightarrow> string \<Rightarrow> js_error + refreshToken_result result" where
  "refreshToken cfg isp token =
    try_catch
      (case initiateAuth isp (refreshToken_request cfg token) of
         Inl e \<Rightarrow> Inl e
       | Inr result \<Rightarrow>
           (case AuthenticationResult result of
              Some auth \<Rightarrow>
                Inr (Success \<lparr> refreshToken_result.accessToken = authenticationResult.AccessToken auth,
                       refreshToken_result.idToken = IdToken auth,
                       refreshToken_result.expiresIn = ExpiresIn auth \<rparr>)
            | None \<Rightarrow> Inr (Failure ''Token refresh failed'')))
      (\<lambda>error. Inr (Failure (or_else (Some (message error)) ''Token refresh failed'')))"

subsection \<open>verifyToken\<close>

definition verifyToken :: "cognitoISP \<Rightarrow> string \<Rightarrow> js_error + getUser_response result" where
  "verifyToken isp token =
    try_catch
      (case getUser isp \<lparr> accessToken_params.AccessToken = token \<rparr> of
         Inl e \<Rightarrow> Inl e
       | Inr result \<Rightarrow> Inr (Success result))
      (\<lambda>error. Inr (Failure (or_else (Some (message error)) ''Token verification failed'')))"

section \<open>middleware/auth.js: the bearer token middleware\<close>

text \<open>
  What a handler does to the response and the chain, in order:
  \<^verbatim>\<open>res.status(n).json(body)\<close>, \<^verbatim>\<open>res.redirect(target)\<close> and \<^verbatim>\<open>next()\<close>.
  These calls of Express return normally (Express catches what a later handler throws
  before it reaches the caller of \<^verbatim>\<open>next\<close>), so the only call in a handler that may
  throw is the one to its collaborator.
\<close>

datatype effect = Json nat "unit result" | Redirect string | Next

text \<open>\<^verbatim>\<open>s.split(sep)\<close> for a separator of one character.\<close>

fun js_split :: "char \<Rightarrow> string \<Rightarrow> string list" where
  "js_split sep [] = [[]]"
| "js_split sep (c # cs) =
    (if c = sep then [] # js_split sep cs
     else (case js_split sep cs of [] \<Rightarrow> [[c]] | w # ws \<Rightarrow> (c # w) # ws))"

text \<open>\<^verbatim>\<open>xs[i]\<close>: \<^verbatim>\<open>undefined\<close> out of range.\<close>

definition js_index :: "'a list \<Rightarrow> nat \<Rightarrow> 'a option" where
  "js_index xs i = (if i < length xs then Some (xs ! i) else None)"

text \<open>
  The first two statements of both middlewares:
  \<^verbatim>\<open>const authHeader = req.headers['authorization'];\<close>
  \<^verbatim>\<open>const token = authHeader && authHeader.split(' ')[1];\<close>
  where \<^verbatim>\<open>a && b\<close> is \<open>a\<close> when \<open>a\<close> is falsy.
\<close>

definition bearer_token :: "request \<Rightarrow> string option" where
  "bearer_token req =
    (let authHeader = headers req ''authorization''
     in if truthy authHeader then js_index (js_split CHR '' '' (the authHeader)) 1
        else authHeader)"

text \<open>
  \<^verbatim>\<open>authenticateToken(req, res, next)\<close>. Its first argument here is the method
  \<^verbatim>\<open>authService.verifyToken\<close> that it calls. The result is the request as the
  middleware leaves it and the effects it had.
\<close>

definition authenticateToken ::
  "(string \<Rightarrow> js_error + getUser_response result) \<Rightarrow> request
    \<Rightarrow> js_error + request \<times> effect list" where
  "authenticateToken authService_verifyToken req =
    try_catch
      (let token = bearer_token req
       in if \<not> truthy token then Inr (req, [Json 401 (Failure ''Access token required'')])
          else
            (case authService_verifyToken (the token) of
               Inl e \<Rightarrow> Inl e
             | Inr result \<Rightarrow>
                 if \<not> success result
                 then Inr (req, [Json 403 (Failure (or_else (Some (error result))
                                                     ''Invalid token''))])
                 else Inr (req\<lparr>user := Some (payload result),
                               request.accessToken := token\<rparr>, [Next])))
      (\<lambda>error. Inr (req, [Json 500 (Failure ''Authentication failed'')]))"

definition optionalAuth ::
  "(string \<Rightarrow> js_error + getUser_response result) \<Rightarrow> request
    \<Rightarrow> js_error + request \<times> effect list" where
  "optionalAuth authService_verifyToken req =
    try_catch
      (let token = bearer_token req
       in case (if truthy token
                then (case authService_verifyToken (the token) of
                        Inl e \<Rightarrow> Inl e
                      | Inr result \<Rightarrow>
                          Inr (if success result
                               then req\<lparr>user := Some (payload result),
                                        request.accessToken := token\<rparr>
                               else req))
                else Inr req) of
            Inl e \<Rightarrow> Inl e
          | Inr req' \<Rightarrow> Inr (req', [Next]))
      (\<lambda>error. Inr (req, [Next]))"

section \<open>utils/cognito-config.js: the OIDC client singleton\<close>

text \<open>
  The openid-client library is a parameter: the outcome of \<^verbatim>\<open>Issuer.discover\<close>, and the
  client's methods \<^verbatim>\<open>callbackParams\<close>, \<^verbatim>\<open>callback\<close> and \<^verbatim>\<open>userinfo\<close>. The
  object built by \<^verbatim>\<open>new issuer.Client({...})\<close> holds the issuer and the metadata it was
  given.
\<close>

type_synonym issuer = "(string \<times> string) list"

record oidc_client =
  client_issuer :: issuer
  client_id :: string
  client_secret :: "string option"
  redirect_uris :: "string list"
  response_types :: "string list"

record callback_params =
  code :: "string option"
  state :: "string option"

record checks =
  nonce :: "string option"
  state :: "string option"

record tokenSet =
  access_token :: "string option"
  id_token :: "string option"
  refresh_token :: "string option"

record openid_client =
  discover :: "string \<Rightarrow> js_error + issuer"
  callbackParams :: "oidc_client \<Rightarrow> request \<Rightarrow> js_error + callback_params"
  callback :: "oidc_client \<Rightarrow> string \<Rightarrow> callback_params \<Rightarrow> checks \<Rightarrow> js_error + tokenSet"
  userinfo :: "oidc_client \<Rightarrow> string option \<Rightarrow> js_error + userinfo"

text \<open>
  The variables of the process: \<^verbatim>\<open>oidcClient\<close> of cognito-config.js and
  \<^verbatim>\<open>oidcClientReady\<close> of app.js. \<open>discovered\<close> is not a variable of the program: it
  records the issuer URL of every call of \<^verbatim>\<open>Issuer.discover\<close> made so far.
\<close>

record process_state =
  oidcClient :: "oidc_client option"
  oidcClientReady :: bool
  discovered :: "string list"

text \<open>
  An async function runs until its first \<^verbatim>\<open>await\<close> of a pending promise, and is resumed
  when that promise settles. \<open>Await url\<close> is \<^verbatim>\<open>initializeOIDCClient\<close> suspended at
  \<^verbatim>\<open>await Issuer.discover(url)\<close>, the request to the issuer already sent. Its
  \<^verbatim>\<open>catch\<close> logs and throws the same error again, so an error of the body is the
  error of the function.
\<close>

datatype async_step = Return oidc_client | Throw js_error | Await string

definition initializeOIDCClient_start ::
  "cognitoConfig \<Rightarrow> process_state \<Rightarrow> async_step \<times> process_state" where
  "initializeOIDCClient_start cfg st =
    (case oidcClient st of
       Some c \<Rightarrow> (Return c, st)
     | None \<Rightarrow>
         if \<not> truthy (Some (IssuerUrl cfg))
         then (Throw (Error
                 ''COGNITO_ISSUER_URL is not configured. Please set it in your .env file.''), st)
         else (Await (IssuerUrl cfg), st\<lparr>discovered := discovered st @ [IssuerUrl cfg]\<rparr>))"

definition initializeOIDCClient_resume ::
  "cognitoConfig \<Rightarrow> js_error + issuer \<Rightarrow> process_state
    \<Rightarrow> (js_error + oidc_client) \<times> process_state" where
  "initializeOIDCClient_resume cfg outcome st =
    (case outcome of
       Inl e \<Rightarrow> (Inl e, st)
     | Inr iss \<Rightarrow>
         let c = \<lparr> client_issuer = iss,
                   client_id = cognitoConfig.ClientId cfg,
                   client_secret = ClientSecret cfg,
                   redirect_uris = [RedirectUri cfg],
                   response_types = ResponseTypes cfg \<rparr>
         in (Inr c, st\<lparr>oidcClient := Some c\<rparr>))"

definition getOIDCClient_start ::
  "cognitoConfig \<Rightarrow> process_state \<Rightarrow> async_step \<times> process_state" where
  "getOIDCClient_start cfg st =
    (case oidcClient st of
       None \<Rightarrow> initializeOIDCClient_start cfg st
     | Some c \<Rightarrow> (Return c, st))"

text \<open>
  \<^verbatim>\<open>await getOIDCClient()\<close> with nothing else running in between: the discovery, when
  one is started, settles as the library says.
\<close>

definition getOIDCClient ::
  "openid_client \<Rightarrow> cognitoConfig \<Rightarrow> process_state
    \<Rightarrow> (js_error + oidc_client) \<times> process_state" where
  "getOIDCClient lib cfg st =
    (case getOIDCClient_start cfg st of
       (Return c, st') \<Rightarrow> (Inr c, st')
     | (Throw e, st') \<Rightarrow> (Inl e, st')
     | (Await u, st') \<Rightarrow> initializeOIDCClient_resume cfg (discover lib u) st')"

subsection \<open>Concurrent callers\<close>

text \<open>
  Node runs one piece of code at a time; callers interleave only at an \<^verbatim>\<open>await\<close>.
  An event is either caller \<open>i\<close> calling \<^verbatim>\<open>getOIDCClient()\<close>, which runs it up to its
  \<^verbatim>\<open>await\<close>, or the discovery that caller \<open>i\<close> awaits settling with an outcome, which
  runs the rest. A caller's promise is pending, resolved with a client or rejected.
\<close>

datatype caller = Pending | Resolved oidc_client | Rejected js_error

record system =
  process :: process_state
  callers :: "nat \<rightharpoonup> caller"

datatype event = Call nat | Settle nat "js_error + issuer"

fun step :: "cognitoConfig \<Rightarrow> event \<Rightarrow> system \<Rightarrow> system" where
  "step cfg (Call i) sys =
    (case getOIDCClient_start cfg (process sys) of
       (Return c, st') \<Rightarrow> sys\<lparr>process := st', callers := (callers sys)(i \<mapsto> Resolved c)\<rparr>
     | (Throw e, st') \<Rightarrow> sys\<lparr>process := st', callers := (callers sys)(i \<mapsto> Rejected e)\<rparr>
     | (Await u, st') \<Rightarrow> sys\<lparr>process := st', callers := (callers sys)(i \<mapsto> Pending)\<rparr>)"
| "step cfg (Settle i outcome) sys =
    (case callers sys i of
       Some Pending \<Rightarrow>
         (case initializeOIDCClient_resume cfg outcome (process sys) of
            (Inl e, st') \<Rightarrow> sys\<lparr>process := st', callers := (callers sys)(i \<mapsto> Rejected e)\<rparr>
          | (Inr c, st') \<Rightarrow> sys\<lparr>process := st', callers := (callers sys)(i \<mapsto> Resolved c)\<rparr>)
     | _ \<Rightarrow> sys)"

definition run :: "cognitoConfig \<Rightarrow> event list \<Rightarrow> system \<Rightarrow> system" where
  "run cfg evs sys = fold (step cfg) evs sys"

text \<open>The process right after cognito-config.js is loaded, with no caller yet.\<close>

definition initial_system :: system where
  "initial_system =
    \<lparr> process = \<lparr> oidcClient = None, oidcClientReady = False, discovered = [] \<rparr>,
      callers = Map.empty \<rparr>"

section \<open>app.js: the OIDC callback route\<close>

definition callback_route ::
  "openid_client \<Rightarrow> cognitoConfig \<Rightarrow> process_state \<Rightarrow> request
    \<Rightarrow> (js_error + request \<times> effect list) \<times> process_state" where
  "callback_route lib cfg st req =
    (if \<not> oidcClientReady st then (Inr (req, [Redirect ''/login'']), st)
     else
       let (got, st') = getOIDCClient lib cfg st
       in (try_catch
             (case got of
                Inl e \<Rightarrow> Inl e
              | Inr client \<Rightarrow>
                  (case callbackParams lib client req of
                     Inl e \<Rightarrow> Inl e
                   | Inr params \<Rightarrow>
                       (case callback lib client (RedirectUri cfg) params
                               \<lparr> checks.nonce = session.nonce (session req),
                                 checks.state = session.state (session req) \<rparr> of
                          Inl e \<Rightarrow> Inl e
                        | Inr tokenSet \<Rightarrow>
                            (case userinfo lib client (access_token tokenSet) of
                               Inl e \<Rightarrow> Inl e
                             | Inr info \<Rightarrow>
                                 Inr (req\<lparr>session := (session req)
                                        \<lparr>userInfo := Some info,
                                         tokens := Some
                                           \<lparr> session_tokens.accessToken = access_token tokenSet,
                                             session_tokens.idToken = id_token tokenSet,
                                             session_tokens.refreshToken =
                                               refresh_token tokenSet \<rparr>\<rparr>\<rparr>,
                                      [Redirect ''/''])))))
             (\<lambda>err. Inr (req, [Redirect ''/login?error=authentication_failed''])),
           st'))"

section \<open>Whitespace-separated components\<close>

text \<open>
  The other reading of "component" that the token extraction is compared with: the
  maximal runs of characters that are not whitespace (space, tab, line feed, vertical tab,
  form feed, carriage return). This is not a function of the program.
\<close>

definition is_whitespace :: "char \<Rightarrow> bool" where
  "is_whitespace c = (c \<in> set [CHR '' '', CHR 0x09, CHR 0x0A, CHR 0x0B, CHR 0x0C, CHR 0x0D])"

fun words_from :: "string \<Rightarrow> string \<Rightarrow> string list" where
  "words_from w [] = (if w = [] then [] else [w])"
| "words_from w (c # cs) =
    (if is_whitespace c then (if w = [] then words_from [] cs else w # words_from [] cs)
     else words_from (w @ [c]) cs)"

definition whitespace_components :: "string \<Rightarrow> string list" where
  "whitespace_components s = words_from [] s"

section \<open>Example inputs\<close>

text \<open>
  Concrete configurations, requests and collaborators at which the theorems below are
  evaluated. \<open>example_hmac\<close> stands in for the crypto module and shows its arguments in
  its digest.
\<close>

definition example_hmac :: hmac_fn where
  "example_hmac alg key msg enc = alg @ '':'' @ key @ '':'' @ msg @ '':'' @ enc"

definition secret_config :: cognitoConfig where
  "secret_config = load_cognitoConfig [''COGNITO_CLIENT_SECRET'' \<mapsto> ''s3cr3t'']"

definition plain_config :: cognitoConfig where
  "plain_config = load_cognitoConfig Map.empty"

text \<open>A provider whose every call is rejected with the given error message.\<close>

definition rejecting_isp :: "string \<Rightarrow> cognitoISP" where
  "rejecting_isp msg =
    \<lparr> cognitoISP.signUp = (\<lambda>_. Inl (Error msg)),
      cognitoISP.confirmSignUp = (\<lambda>_. Inl (Error msg)),
      cognitoISP.resendConfirmationCode = (\<lambda>_. Inl (Error msg)),
      initiateAuth = (\<lambda>_. Inl (Error msg)),
      globalSignOut = (\<lambda>_. Inl (Error msg)),
      getUser = (\<lambda>_. Inl (Error msg)) \<rparr>"

definition alice :: getUser_response where
  "alice = \<lparr> getUser_response.Username = ''alice'',
             getUser_response.UserAttributes = [(''sub'', ''u-1''), (''email'', ''a@x.org'')] \<rparr>"

definition alice_tokens :: authenticationResult where
  "alice_tokens =
    \<lparr> authenticationResult.AccessToken = Some ''at'', IdToken = Some ''it'',
      RefreshToken = Some ''rt'', ExpiresIn = Some 3600 \<rparr>"

text \<open>A provider that accepts every call.\<close>

definition accepting_isp :: cognitoISP where
  "accepting_isp =
    \<lparr> cognitoISP.signUp =
        (\<lambda>_. Inr \<lparr> UserSub = Some ''u-1'', signUp_response.CodeDeliveryDetails = None \<rparr>),
      cognitoISP.confirmSignUp = (\<lambda>_. Inr ()),
      cognitoISP.resendConfirmationCode =
        (\<lambda>_. Inr \<lparr> resendConfirmationCode_response.CodeDeliveryDetails = None \<rparr>),
      initiateAuth = (\<lambda>_. Inr \<lparr> AuthenticationResult = Some alice_tokens \<rparr>),
      globalSignOut = (\<lambda>_. Inr ()),
      getUser = (\<lambda>_. Inr alice) \<rparr>"

text \<open>
  A provider that accepts a call exactly when the secret hash it carries is the expected
  one (\<open>None\<close>: it expects none), as Cognito does for a client with and without a
  secret.
\<close>

definition hash_checking_isp :: "string option \<Rightarrow> cognitoISP" where
  "hash_checking_isp expected =
    \<lparr> cognitoISP.signUp = (\<lambda>params.
        if signUp_params.SecretHash params = expected
        then Inr \<lparr> UserSub = Some ''u-1'', signUp_response.CodeDeliveryDetails = None \<rparr>
        else Inl (Error ''Unable to verify secret hash for client'')),
      cognitoISP.confirmSignUp = (\<lambda>params.
        if confirmSignUp_params.SecretHash params = expected then Inr ()
        else Inl (Error ''Unable to verify secret hash for client'')),
      cognitoISP.resendConfirmationCode = (\<lambda>params.
        if resendConfirmationCode_params.SecretHash params = expected
        then Inr \<lparr> resendConfirmationCode_response.CodeDeliveryDetails = None \<rparr>
        else Inl (Error ''Unable to verify secret hash for client'')),
      initiateAuth = (\<lambda>params.
        if AuthParameters params ''SECRET_HASH'' = expected
        then Inr \<lparr> AuthenticationResult = Some alice_tokens \<rparr>
        else Inl (Error ''Unable to verify secret hash for client'')),
      globalSignOut = (\<lambda>_. Inr ()),
      getUser = (\<lambda>_. Inr alice) \<rparr>"

definition empty_session :: session where
  "empty_session =
    \<lparr> session.nonce = None, session.state = None, userInfo = None, tokens = None \<rparr>"

text \<open>A request with the given Authorization header and nothing attached.\<close>

definition request_with :: "string option \<Rightarrow> request" where
  "request_with authorization =
    \<lparr> headers = (\<lambda>k. if k = ''authorization'' then authorization else None),
      url = ''/api/courses'',
      user = None,
      request.accessToken = None,
      session = empty_session \<rparr>"

text \<open>
  A library whose discovery succeeds, whose \<^verbatim>\<open>callbackParams\<close> reads the state
  \<^verbatim>\<open>tampered\<close> from every request, and whose \<^verbatim>\<open>callback\<close> rejects a state that
  differs from the expected one.
\<close>

definition example_lib :: openid_client where
  "example_lib =
    \<lparr> discover = (\<lambda>u. Inr [(''issuer'', u)]),
      callbackParams = (\<lambda>_ _. Inr \<lparr> code = Some ''c0de'',
                                      callback_params.state = Some ''tampered'' \<rparr>),
      callback = (\<lambda>_ _ params chk.
        if callback_params.state params \<noteq> checks.state chk
        then Inl (Error ''state mismatch, expected s1, got: tampered'')
        else Inr \<lparr> access_token = Some ''at'', id_token = Some ''it'',
                   refresh_token = None \<rparr>),
      userinfo = (\<lambda>_ _. Inr [(''sub'', ''u-1'')]) \<rparr>"

text \<open>The callback request of a browser whose session stores the state \<^verbatim>\<open>s1\<close>.\<close>

definition callback_request :: request where
  "callback_request =
    \<lparr> headers = Map.empty,
      url = ''/callback?code=c0de&state=tampered'',
      user = None,
      request.accessToken = None,
      session = \<lparr> session.nonce = Some ''n1'', session.state = Some ''s1'',
                  userInfo = None, tokens = None \<rparr> \<rparr>"

definition example_client :: oidc_client where
  "example_client =
    \<lparr> client_issuer = [(''issuer'', ''https://issuer'')], client_id = ''c'',
      client_secret = None, redirect_uris = [''https://app/callback''],
      response_types = [''code''] \<rparr>"

text \<open>The process after the discovery started by app.js has completed.\<close>

definition ready_state :: process_state where
  "ready_state =
    \<lparr> oidcClient = Some example_client,
      oidcClientReady = True,
      discovered = [''https://issuer''] \<rparr>"

text \<open>An Authorization header whose scheme and token are separated by a tab.\<close>

definition tab_header :: string where
  "tab_header = ''Bearer'' @ [CHR 0x09] @ ''abc''"

text \<open>The process before the discovery started by app.js has completed.\<close>

definition not_ready_state :: process_state where
  "not_ready_state = \<lparr> oidcClient = None, oidcClientReady = False, discovered = [] \<rparr>"

section \<open>The secret hash calculator\<close>

text \<open>
  C3. The secret hash is a function of the user name, the client id and the secret alone.
  With a secret configured (a non-empty \<^verbatim>\<open>ClientSecret\<close>) it is the base64 digest of the
  HMAC-SHA256, keyed by the secret, of the user name followed by the client id. With no
  secret configured (\<^verbatim>\<open>undefined\<close> or empty) it is \<^verbatim>\<open>null\<close>, which is not the empty
  string.
\<close>

theorem calculateSecretHash_spec:
  "calculateSecretHash hmac cfg username =
     (case ClientSecret cfg of
        None \<Rightarrow> None
      | Some secret \<Rightarrow>
          if secret = [] then None
          else Some (hmac ''sha256'' secret (username @ cognitoConfig.ClientId cfg) ''base64''))
   \<and> (\<not> truthy (ClientSecret cfg) \<longrightarrow>
        calculateSecretHash hmac cfg username = None
        \<and> calculateSecretHash hmac cfg username \<noteq> Some [])
   \<and> (cognitoConfig.ClientId cfg = cognitoConfig.ClientId cfg' \<and> ClientSecret cfg = ClientSecret cfg' \<longrightarrow>
        calculateSecretHash hmac cfg username = calculateSecretHash hmac cfg' username)"
  by (simp add: calculateSecretHash_def truthy_def Let_def split: option.splits)

lemma secret_config_simps:
  "cognitoConfig.ClientId secret_config = ''3pgi8im0do3ahfdqc17vgpujqb''"
  "ClientSecret secret_config = Some ''s3cr3t''"
  "IssuerUrl secret_config = ''https://cognito-idp.us-east-1.amazonaws.com/us-east-1_mhu6JL75g''"
  by (simp_all add: secret_config_def load_cognitoConfig_def env_or_def or_else_def)

lemma plain_config_simps:
  "cognitoConfig.ClientId plain_config = ''3pgi8im0do3ahfdqc17vgpujqb''"
  "ClientSecret plain_config = None"
  "IssuerUrl plain_config = ''https://cognito-idp.us-east-1.amazonaws.com/us-east-1_mhu6JL75g''"
  by (simp_all add: plain_config_def load_cognitoConfig_def env_or_def or_else_def)

theorem calculateSecretHash_spec_witness:
  "calculateSecretHash example_hmac secret_config ''alice''
     = Some ''sha256:s3cr3t:alice3pgi8im0do3ahfdqc17vgpujqb:base64''
   \<and> calculateSecretHash example_hmac plain_config ''alice'' = None
   \<and> calculateSecretHash example_hmac plain_config ''alice'' \<noteq> Some []"
  using calculateSecretHash_spec [of example_hmac secret_config "''alice''" secret_config]
    calculateSecretHash_spec [of example_hmac plain_config "''alice''" plain_config]
  by (simp add: secret_config_simps plain_config_simps truthy_def example_hmac_def)

section \<open>The secret hash on outgoing requests\<close>

text \<open>
  C2. Each of \<^verbatim>\<open>signUp\<close>, \<^verbatim>\<open>confirmSignUp\<close>, \<^verbatim>\<open>resendConfirmationCode\<close> and
  \<^verbatim>\<open>signIn\<close> makes one call to the provider, with the parameters named here
  \<open>signUp_request\<close>, \<open>confirmSignUp_request\<close>, \<open>resendConfirmationCode_request\<close> and
  \<open>signIn_request\<close>, and its result is determined by the provider's answer to exactly
  these parameters. The digest of the crypto module is assumed non-empty (the base64 text
  of a SHA-256 digest has 44 characters). Then for every user name these parameters carry,
  as \<^verbatim>\<open>SecretHash\<close> (as \<^verbatim>\<open>AuthParameters.SECRET_HASH\<close> for \<^verbatim>\<open>signIn\<close>), exactly
  the value of \<^verbatim>\<open>calculateSecretHash\<close>: the computed hash when a client secret is
  configured, and no such property when none is.
\<close>

theorem secret_hash_attached:
  assumes "\<And>key msg. hmac ''sha256'' key msg ''base64'' \<noteq> []"
  shows
  "signUp_params.SecretHash (signUp_request hmac cfg username email password)
     = calculateSecretHash hmac cfg username
   \<and> confirmSignUp_params.SecretHash (confirmSignUp_request hmac cfg username ccode)
     = calculateSecretHash hmac cfg username
   \<and> resendConfirmationCode_params.SecretHash (resendConfirmationCode_request hmac cfg username)
     = calculateSecretHash hmac cfg username
   \<and> AuthParameters (signIn_request hmac cfg username password) ''SECRET_HASH''
     = calculateSecretHash hmac cfg username
   \<and> (truthy (ClientSecret cfg) \<longrightarrow>
        calculateSecretHash hmac cfg username
          = Some (hmac ''sha256'' (the (ClientSecret cfg))
                    (username @ cognitoConfig.ClientId cfg) ''base64''))
   \<and> (\<not> truthy (ClientSecret cfg) \<longrightarrow> calculateSecretHash hmac cfg username = None)
   \<and> signUp hmac cfg isp username email password =
       (case cognitoISP.signUp isp (signUp_request hmac cfg username email password) of
          Inl e \<Rightarrow> Inr (Failure (if message e \<noteq> [] then message e else ''Sign up failed''))
        | Inr result \<Rightarrow>
            Inr (Success \<lparr> userSub = UserSub result,
                   signUp_result.codeDeliveryDetails
                     = signUp_response.CodeDeliveryDetails result \<rparr>))
   \<and> confirmSignUp hmac cfg isp username ccode =
       (case cognitoISP.confirmSignUp isp (confirmSignUp_request hmac cfg username ccode) of
          Inl e \<Rightarrow> Inr (Failure (if message e \<noteq> [] then message e
                                  else ''Email verification failed''))
        | Inr _ \<Rightarrow> Inr (Success ''Email verified successfully''))
   \<and> resendConfirmationCode hmac cfg isp username =
       (case cognitoISP.resendConfirmationCode isp
               (resendConfirmationCode_request hmac cfg username) of
          Inl e \<Rightarrow> Inr (Failure (if message e \<noteq> [] then message e
                                  else ''Failed to resend verification code''))
        | Inr result \<Rightarrow>
            Inr (Success (resendConfirmationCode_response.CodeDeliveryDetails result)))
   \<and> signIn hmac cfg isp username password =
       (case initiateAuth isp (signIn_request hmac cfg username password) of
          Inl e \<Rightarrow> Inr (Failure (if message e \<noteq> [] then message e else ''Sign in failed''))
        | Inr result \<Rightarrow>
            (case AuthenticationResult result of
               Some auth \<Rightarrow>
                 Inr (Success \<lparr> signIn_result.accessToken = authenticationResult.AccessToken auth,
                        signIn_result.idToken = IdToken auth,
                        signIn_result.refreshToken = RefreshToken auth,
                        signIn_result.expiresIn = ExpiresIn auth \<rparr>)
             | None \<Rightarrow> Inr (Failure ''Authentication failed'')))"
proof -
  have c: "calculateSecretHash hmac cfg username = None
      \<or> truthy (calculateSecretHash hmac cfg username)"
    using assms by (simp add: calculateSecretHash_def truthy_def Let_def)
  have r1: "signUp_params.SecretHash (signUp_request hmac cfg username email password)
     = calculateSecretHash hmac cfg username"
    using c by (auto simp add: signUp_request_def Let_def truthy_def)
  have r2: "confirmSignUp_params.SecretHash (confirmSignUp_request hmac cfg username ccode)
     = calculateSecretHash hmac cfg username"
    using c by (auto simp add: confirmSignUp_request_def Let_def truthy_def)
  have r3: "resendConfirmationCode_params.SecretHash
       (resendConfirmationCode_request hmac cfg username)
     = calculateSecretHash hmac cfg username"
    using c by (auto simp add: resendConfirmationCode_request_def Let_def truthy_def)
  have r4: "AuthParameters (signIn_request hmac cfg username password) ''SECRET_HASH''
     = calculateSecretHash hmac cfg username"
    using c by (auto simp add: signIn_request_def Let_def truthy_def split: option.splits)
  have n: "\<not> truthy (ClientSecret cfg) \<longrightarrow> calculateSecretHash hmac cfg username = None"
    by (simp add: calculateSecretHash_def)
  have s: "truthy (ClientSecret cfg) \<longrightarrow> calculateSecretHash hmac cfg username
          = Some (hmac ''sha256'' (the (ClientSecret cfg))
                    (username @ cognitoConfig.ClientId cfg) ''base64'')"
    by (simp add: calculateSecretHash_def Let_def)
  have t1: "signUp hmac cfg isp username email password =
       (case cognitoISP.signUp isp (signUp_request hmac cfg username email password) of
          Inl e \<Rightarrow> Inr (Failure (if message e \<noteq> [] then message e else ''Sign up failed''))
        | Inr result \<Rightarrow>
            Inr (Success \<lparr> userSub = UserSub result,
                   signUp_result.codeDeliveryDetails
                     = signUp_response.CodeDeliveryDetails result \<rparr>))"
    by (simp add: signUp_def try_catch_def or_else_def split: sum.splits)
  have t2: "confirmSignUp hmac cfg isp username ccode =
       (case cognitoISP.confirmSignUp isp (confirmSignUp_request hmac cfg username ccode) of
          Inl e \<Rightarrow> Inr (Failure (if message e \<noteq> [] then message e
                                  else ''Email verification failed''))
        | Inr _ \<Rightarrow> Inr (Success ''Email verified successfully''))"
    by (simp add: confirmSignUp_def try_catch_def or_else_def split: sum.splits)
  have t3: "resendConfirmationCode hmac cfg isp username =
       (case cognitoISP.resendConfirmationCode isp
               (resendConfirmationCode_request hmac cfg username) of
          Inl e \<Rightarrow> Inr (Failure (if message e \<noteq> [] then message e
                                  else ''Failed to resend verification code''))
        | Inr result \<Rightarrow>
            Inr (Success (resendConfirmationCode_response.CodeDeliveryDetails result)))"
    by (simp add: resendConfirmationCode_def try_catch_def or_else_def split: sum.splits)
  have t4: "signIn hmac cfg isp username password =
       (case initiateAuth isp (signIn_request hmac cfg username password) of
          Inl e \<Rightarrow> Inr (Failure (if message e \<noteq> [] then message e else ''Sign in failed''))
        | Inr result \<Rightarrow>
            (case AuthenticationResult result of
               Some auth \<Rightarrow>
                 Inr (Success \<lparr> signIn_result.accessToken = authenticationResult.AccessToken auth,
                        signIn_result.idToken = IdToken auth,
                        signIn_result.refreshToken = RefreshToken auth,
                        signIn_result.expiresIn = ExpiresIn auth \<rparr>)
             | None \<Rightarrow> Inr (Failure ''Authentication failed'')))"
    by (simp add: signIn_def try_catch_def or_else_def split: sum.splits option.splits)
  from r1 r2 r3 r4 s n t1 t2 t3 t4 show ?thesis by blast
qed

text \<open>
  With the secret \<^verbatim>\<open>s3cr3t\<close> configured, a provider that insists on the computed hash
  accepts all four operations and one that expects no hash refuses them; with no secret
  configured, a provider that expects no hash accepts them.
\<close>

theorem secret_hash_attached_witness:
  "signUp_params.SecretHash
      (signUp_request example_hmac secret_config ''alice'' ''a@x.org'' ''pw'')
     = Some ''sha256:s3cr3t:alice3pgi8im0do3ahfdqc17vgpujqb:base64''
   \<and> AuthParameters (signIn_request example_hmac secret_config ''alice'' ''pw'') ''SECRET_HASH''
     = Some ''sha256:s3cr3t:alice3pgi8im0do3ahfdqc17vgpujqb:base64''
   \<and> confirmSignUp_params.SecretHash
        (confirmSignUp_request example_hmac plain_config ''alice'' ''123456'') = None
   \<and> resendConfirmationCode_params.SecretHash
        (resendConfirmationCode_request example_hmac plain_config ''alice'') = None
   \<and> AuthParameters (signIn_request example_hmac plain_config ''alice'' ''pw'') ''SECRET_HASH''
     = None
   \<and> signUp example_hmac secret_config
        (hash_checking_isp (Some ''sha256:s3cr3t:alice3pgi8im0do3ahfdqc17vgpujqb:base64''))
        ''alice'' ''a@x.org'' ''pw''
     = Inr (Success \<lparr> userSub = Some ''u-1'', signUp_result.codeDeliveryDetails = None \<rparr>)
   \<and> confirmSignUp example_hmac secret_config
        (hash_checking_isp (Some ''sha256:s3cr3t:alice3pgi8im0do3ahfdqc17vgpujqb:base64''))
        ''alice'' ''123456''
     = Inr (Success ''Email verified successfully'')
   \<and> resendConfirmationCode example_hmac secret_config
        (hash_checking_isp (Some ''sha256:s3cr3t:alice3pgi8im0do3ahfdqc17vgpujqb:base64''))
        ''alice''
     = Inr (Success None)
   \<and> signIn example_hmac secret_config
        (hash_checking_isp (Some ''sha256:s3cr3t:alice3pgi8im0do3ahfdqc17vgpujqb:base64''))
        ''alice'' ''pw''
     = Inr (Success \<lparr> signIn_result.accessToken = Some ''at'',
              signIn_result.idToken = Some ''it'',
              signIn_result.refreshToken = Some ''rt'',
              signIn_result.expiresIn = Some 3600 \<rparr>)
   \<and> signUp example_hmac secret_config (hash_checking_isp None) ''alice'' ''a@x.org'' ''pw''
     = Inr (Failure ''Unable to verify secret hash for client'')
   \<and> confirmSignUp example_hmac plain_config (hash_checking_isp None) ''alice'' ''123456''
     = Inr (Success ''Email verified successfully'')
   \<and> resendConfirmationCode example_hmac plain_config (hash_checking_isp None) ''alice''
     = Inr (Success None)
   \<and> signUp example_hmac plain_config (hash_checking_isp None) ''alice'' ''a@x.org'' ''pw''
     = Inr (Success \<lparr> userSub = Some ''u-1'', signUp_result.codeDeliveryDetails = None \<rparr>)"
proof -
  have h: "\<And>key msg. example_hmac ''sha256'' key msg ''base64'' \<noteq> []"
    by (simp add: example_hmac_def)
  let ?d = "''sha256:s3cr3t:alice3pgi8im0do3ahfdqc17vgpujqb:base64''"
  have hs: "calculateSecretHash example_hmac secret_config ''alice'' = Some ?d"
    by (simp add: calculateSecretHash_def secret_config_simps truthy_def example_hmac_def)
  have hp: "calculateSecretHash example_hmac plain_config ''alice'' = None"
    by (simp add: calculateSecretHash_def plain_config_simps truthy_def)
  note s1 = secret_hash_attached
    [where hmac = example_hmac and cfg = secret_config and username = "''alice''"
       and email = "''a@x.org''" and password = "''pw''" and ccode = "''123456''"
       and isp = "hash_checking_isp (Some ?d)", OF h]
  note s2 = secret_hash_attached
    [where hmac = example_hmac and cfg = secret_config and username = "''alice''"
       and email = "''a@x.org''" and password = "''pw''" and ccode = "''123456''"
       and isp = "hash_checking_isp None", OF h]
  note p1 = secret_hash_attached
    [where hmac = example_hmac and cfg = plain_config and username = "''alice''"
       and email = "''a@x.org''" and password = "''pw''" and ccode = "''123456''"
       and isp = "hash_checking_isp None", OF h]
  have q1: "signUp_params.SecretHash
      (signUp_request example_hmac secret_config ''alice'' ''a@x.org'' ''pw'') = Some ?d"
    using s1 [THEN conjunct1] hs by simp
  have q2: "confirmSignUp_params.SecretHash
      (confirmSignUp_request example_hmac secret_config ''alice'' ''123456'') = Some ?d"
    using s1 [THEN conjunct2, THEN conjunct1] hs by simp
  have q3: "resendConfirmationCode_params.SecretHash
      (resendConfirmationCode_request example_hmac secret_config ''alice'') = Some ?d"
    using s1 [THEN conjunct2, THEN conjunct2, THEN conjunct1] hs by simp
  have q4: "AuthParameters (signIn_request example_hmac secret_config ''alice'' ''pw'')
      ''SECRET_HASH'' = Some ?d"
    using s1 [THEN conjunct2, THEN conjunct2, THEN conjunct2, THEN conjunct1] hs by simp
  have n1: "signUp_params.SecretHash
      (signUp_request example_hmac plain_config ''alice'' ''a@x.org'' ''pw'') = None"
    using p1 [THEN conjunct1] hp by simp
  have n2: "confirmSignUp_params.SecretHash
      (confirmSignUp_request example_hmac plain_config ''alice'' ''123456'') = None"
    using p1 [THEN conjunct2, THEN conjunct1] hp by simp
  have n3: "resendConfirmationCode_params.SecretHash
      (resendConfirmationCode_request example_hmac plain_config ''alice'') = None"
    using p1 [THEN conjunct2, THEN conjunct2, THEN conjunct1] hp by simp
  have n4: "AuthParameters (signIn_request example_hmac plain_config ''alice'' ''pw'')
      ''SECRET_HASH'' = None"
    using p1 [THEN conjunct2, THEN conjunct2, THEN conjunct2, THEN conjunct1] hp by simp
  note ties = conjunct2 [THEN conjunct2, THEN conjunct2, THEN conjunct2, THEN conjunct2,
    THEN conjunct2]
  have a1: "signUp example_hmac secret_config (hash_checking_isp (Some ?d))
        ''alice'' ''a@x.org'' ''pw''
     = Inr (Success \<lparr> userSub = Some ''u-1'', signUp_result.codeDeliveryDetails = None \<rparr>)"
    unfolding s1 [THEN ties, THEN conjunct1] by (simp add: hash_checking_isp_def q1)
  have a2: "confirmSignUp example_hmac secret_config (hash_checking_isp (Some ?d))
        ''alice'' ''123456''
     = Inr (Success ''Email verified successfully'')"
    unfolding s1 [THEN ties, THEN conjunct2, THEN conjunct1]
    by (simp add: hash_checking_isp_def q2)
  have a3: "resendConfirmationCode example_hmac secret_config (hash_checking_isp (Some ?d))
        ''alice''
     = Inr (Success None)"
    unfolding s1 [THEN ties, THEN conjunct2, THEN conjunct2, THEN conjunct1]
    by (simp add: hash_checking_isp_def q3)
  have a4: "signIn example_hmac secret_config (hash_checking_isp (Some ?d)) ''alice'' ''pw''
     = Inr (Success \<lparr> signIn_result.accessToken = Some ''at'',
              signIn_result.idToken = Some ''it'',
              signIn_result.refreshToken = Some ''rt'',
              signIn_result.expiresIn = Some 3600 \<rparr>)"
    unfolding s1 [THEN ties, THEN conjunct2, THEN conjunct2, THEN conjunct2]
    by (simp add: hash_checking_isp_def q4 alice_tokens_def)
  have b1: "signUp example_hmac secret_config (hash_checking_isp None)
        ''alice'' ''a@x.org'' ''pw''
     = Inr (Failure ''Unable to verify secret hash for client'')"
    unfolding s2 [THEN ties, THEN conjunct1] by (simp add: hash_checking_isp_def q1)
  have c1: "signUp example_hmac plain_config (hash_checking_isp None)
        ''alice'' ''a@x.org'' ''pw''
     = Inr (Success \<lparr> userSub = Some ''u-1'', signUp_result.codeDeliveryDetails = None \<rparr>)"
    unfolding p1 [THEN ties, THEN conjunct1] by (simp add: hash_checking_isp_def n1)
  have c2: "confirmSignUp example_hmac plain_config (hash_checking_isp None)
        ''alice'' ''123456''
     = Inr (Success ''Email verified successfully'')"
    unfolding p1 [THEN ties, THEN conjunct2, THEN conjunct1]
    by (simp add: hash_checking_isp_def n2)
  have c3: "resendConfirmationCode example_hmac plain_config (hash_checking_isp None) ''alice''
     = Inr (Success None)"
    unfolding p1 [THEN ties, THEN conjunct2, THEN conjunct2, THEN conjunct1]
    by (simp add: hash_checking_isp_def n3)
  from q1 q4 n2 n3 n4 a1 a2 a3 a4 b1 c2 c3 c1 show ?thesis by blast
qed

section \<open>The adapter's result contract\<close>

lemma try_catch_Inr:
  "(\<And>e. \<exists>r. handler e = Inr r) \<Longrightarrow> \<exists>r. try_catch body handler = Inr r"
  by (cases body) (simp_all add: try_catch_def)

text \<open>
  C8. Whatever the inputs and whatever the provider does (a response or a rejection,
  a network failure included), each of the eight adapter operations returns a result
  object and no exception propagates to its caller. In particular every error of the
  \<^verbatim>\<open>getUser\<close> probe makes \<^verbatim>\<open>verifyToken\<close> return a failure result.
\<close>

theorem adapter_never_throws:
  "(\<exists>r. signUp hmac cfg isp username email password = Inr r)
   \<and> (\<exists>r. confirmSignUp hmac cfg isp username ccode = Inr r)
   \<and> (\<exists>r. resendConfirmationCode hmac cfg isp username = Inr r)
   \<and> (\<exists>r. signIn hmac cfg isp username password = Inr r)
   \<and> (\<exists>r. signOut isp token = Inr r)
   \<and> (\<exists>r. refreshToken cfg isp token = Inr r)
   \<and> (\<exists>r. getUserInfo isp token = Inr r)
   \<and> (\<exists>r. verifyToken isp token = Inr r)
   \<and> (\<forall>e. getUser isp \<lparr> accessToken_params.AccessToken = token \<rparr> = Inl e \<longrightarrow>
        verifyToken isp token
          = Inr (Failure (if message e \<noteq> [] then message e
                          else ''Token verification failed'')))"
proof -
  have 1: "\<exists>r. signUp hmac cfg isp username email password = Inr r"
    unfolding signUp_def by (rule try_catch_Inr) simp
  have 2: "\<exists>r. confirmSignUp hmac cfg isp username ccode = Inr r"
    unfolding confirmSignUp_def by (rule try_catch_Inr) simp
  have 3: "\<exists>r. resendConfirmationCode hmac cfg isp username = Inr r"
    unfolding resendConfirmationCode_def by (rule try_catch_Inr) simp
  have 4: "\<exists>r. signIn hmac cfg isp username password = Inr r"
    unfolding signIn_def by (rule try_catch_Inr) simp
  have 5: "\<exists>r. signOut isp token = Inr r"
    unfolding signOut_def by (rule try_catch_Inr) simp
  have 6: "\<exists>r. refreshToken cfg isp token = Inr r"
    unfolding refreshToken_def by (rule try_catch_Inr) simp
  have 7: "\<exists>r. getUserInfo isp token = Inr r"
    unfolding getUserInfo_def by (rule try_catch_Inr) simp
  have 8: "\<exists>r. verifyToken isp token = Inr r"
    unfolding verifyToken_def by (rule try_catch_Inr) simp
  have 9: "\<forall>e. getUser isp \<lparr> accessToken_params.AccessToken = token \<rparr> = Inl e \<longrightarrow>
        verifyToken isp token
          = Inr (Failure (if message e \<noteq> [] then message e
                          else ''Token verification failed''))"
    by (simp add: verifyToken_def try_catch_def or_else_def)
  from 1 2 3 4 5 6 7 8 9 show ?thesis by blast
qed

theorem adapter_never_throws_witness:
  "verifyToken (rejecting_isp ''Access Token has expired'') ''abc''
     = Inr (Failure ''Access Token has expired'')
   \<and> verifyToken (rejecting_isp []) ''abc'' = Inr (Failure ''Token verification failed'')"
  using adapter_never_throws
      [of example_hmac plain_config "rejecting_isp ''Access Token has expired''"
          "''alice''" "''a@x.org''" "''pw''" "''123456''" "''abc''"]
    adapter_never_throws
      [of example_hmac plain_config "rejecting_isp []"
          "''alice''" "''a@x.org''" "''pw''" "''123456''" "''abc''"]
  by (simp add: rejecting_isp_def)

section \<open>Password sign-in\<close>

text \<open>
  C7, as the code has it. When the provider answers with an
  \<^verbatim>\<open>AuthenticationResult\<close>, \<^verbatim>\<open>signIn\<close> returns a success result with the access,
  id and refresh tokens and the expiry of that answer. When the provider answers without
  one, the result is a failure with the fixed message \<^verbatim>\<open>Authentication failed\<close>. When
  the call is rejected with an error, the result is a failure whose message is the
  error's own message, and the fixed \<^verbatim>\<open>Sign in failed\<close> only when that message is
  empty. A failure result has the error message as its only content, so it carries no
  token.
\<close>

theorem signIn_outcomes:
  "(\<forall>resp auth.
      initiateAuth isp (signIn_request hmac cfg username password) = Inr resp
      \<and> AuthenticationResult resp = Some auth \<longrightarrow>
      signIn hmac cfg isp username password
        = Inr (Success \<lparr> signIn_result.accessToken = authenticationResult.AccessToken auth,
                 signIn_result.idToken = IdToken auth,
                 signIn_result.refreshToken = RefreshToken auth,
                 signIn_result.expiresIn = ExpiresIn auth \<rparr>))
   \<and> (\<forall>resp.
      initiateAuth isp (signIn_request hmac cfg username password) = Inr resp
      \<and> AuthenticationResult resp = None \<longrightarrow>
      signIn hmac cfg isp username password = Inr (Failure ''Authentication failed''))
   \<and> (\<forall>e.
      initiateAuth isp (signIn_request hmac cfg username password) = Inl e \<longrightarrow>
      signIn hmac cfg isp username password
        = Inr (Failure (if message e \<noteq> [] then message e else ''Sign in failed'')))"
  by (simp add: signIn_def try_catch_def or_else_def)

theorem signIn_outcomes_witness:
  "signIn example_hmac secret_config accepting_isp ''alice'' ''pw''
     = Inr (Success \<lparr> signIn_result.accessToken = Some ''at'',
              signIn_result.idToken = Some ''it'',
              signIn_result.refreshToken = Some ''rt'',
              signIn_result.expiresIn = Some 3600 \<rparr>)
   \<and> signIn example_hmac secret_config (rejecting_isp []) ''alice'' ''pw''
     = Inr (Failure ''Sign in failed'')"
  using signIn_outcomes [of accepting_isp example_hmac secret_config "''alice''" "''pw''"]
    signIn_outcomes [of "rejecting_isp []" example_hmac secret_config "''alice''" "''pw''"]
  by (simp add: accepting_isp_def rejecting_isp_def alice_tokens_def)

text \<open>
  The failure message is not always generic: a provider that rejects the call with
  \<^verbatim>\<open>User does not exist.\<close> has exactly that text returned to the caller.
\<close>

theorem signIn_echoes_provider_message:
  "signIn example_hmac plain_config (rejecting_isp ''User does not exist.'') ''mallory'' ''pw''
     = Inr (Failure ''User does not exist.'')"
  by (simp add: signIn_def try_catch_def or_else_def rejecting_isp_def)

section \<open>Token refresh\<close>

text \<open>
  C9. The request of \<^verbatim>\<open>refreshToken\<close> has \<^verbatim>\<open>REFRESH_TOKEN\<close> as its only
  authentication parameter. With the client secret \<^verbatim>\<open>s3cr3t\<close> configured it still
  carries no \<^verbatim>\<open>SECRET_HASH\<close>, while the request of \<^verbatim>\<open>signIn\<close> under the same
  configuration carries the computed one.
\<close>

theorem refreshToken_request_omits_secret_hash:
  "truthy (ClientSecret secret_config)
   \<and> AuthParameters (refreshToken_request secret_config ''rt'') ''SECRET_HASH'' = None
   \<and> dom (AuthParameters (refreshToken_request secret_config ''rt'')) = {''REFRESH_TOKEN''}
   \<and> AuthParameters (signIn_request example_hmac secret_config ''alice'' ''pw'') ''SECRET_HASH''
       = Some ''sha256:s3cr3t:alice3pgi8im0do3ahfdqc17vgpujqb:base64''"
  by (simp add: refreshToken_request_def signIn_request_def calculateSecretHash_def
      secret_config_simps truthy_def example_hmac_def Let_def)

section \<open>The bearer token middleware\<close>

subsection \<open>Splitting the header\<close>

lemma js_split_not_Nil: "js_split c s \<noteq> []"
  by (induction s) (auto split: list.splits)

lemma js_split_no_sep: "c \<notin> set s \<Longrightarrow> js_split c s = [s]"
  by (induction s) auto

lemma js_split_Cons:
  "js_split c s = takeWhile (\<lambda>x. x \<noteq> c) s # tl (js_split c s)"
  by (induction s) (auto split: list.splits simp: js_split_not_Nil)

lemma js_split_tl:
  "c \<in> set s \<Longrightarrow> tl (js_split c s) = js_split c (tl (dropWhile (\<lambda>x. x \<noteq> c) s))"
  by (induction s) (auto split: list.splits simp: js_split_no_sep)

lemma js_split_second:
  "js_index (js_split c s) (Suc 0) =
    (if c \<in> set s
     then Some (takeWhile (\<lambda>x. x \<noteq> c) (tl (dropWhile (\<lambda>x. x \<noteq> c) s)))
     else None)"
proof (cases "c \<in> set s")
  case False
  then show ?thesis by (simp add: js_split_no_sep js_index_def)
next
  case True
  let ?r = "tl (dropWhile (\<lambda>x. x \<noteq> c) s)"
  have "js_split c s = takeWhile (\<lambda>x. x \<noteq> c) s # js_split c ?r"
    using js_split_Cons [of c s] js_split_tl [OF True] by simp
  also have "js_split c ?r = takeWhile (\<lambda>x. x \<noteq> c) ?r # tl (js_split c ?r)"
    by (rule js_split_Cons)
  finally show ?thesis using True by (simp add: js_index_def)
qed

subsection \<open>The two middlewares by cases\<close>

lemma authenticateToken_no_token:
  "\<not> truthy (bearer_token req) \<Longrightarrow>
    authenticateToken v req = Inr (req, [Json 401 (Failure ''Access token required'')])"
  by (simp add: authenticateToken_def try_catch_def Let_def)

lemma authenticateToken_token:
  "truthy (bearer_token req) \<Longrightarrow>
    authenticateToken v req =
      (case v (the (bearer_token req)) of
         Inl e \<Rightarrow> Inr (req, [Json 500 (Failure ''Authentication failed'')])
       | Inr (Failure m) \<Rightarrow>
           Inr (req, [Json 403 (Failure (if m \<noteq> [] then m else ''Invalid token''))])
       | Inr (Success u) \<Rightarrow>
           Inr (req\<lparr>user := Some u, request.accessToken := bearer_token req\<rparr>, [Next]))"
  by (simp add: authenticateToken_def try_catch_def Let_def success_def or_else_def
      split: sum.splits result.splits)

lemma optionalAuth_no_token:
  "\<not> truthy (bearer_token req) \<Longrightarrow> optionalAuth v req = Inr (req, [Next])"
  by (simp add: optionalAuth_def try_catch_def Let_def)

lemma optionalAuth_token:
  "truthy (bearer_token req) \<Longrightarrow>
    optionalAuth v req =
      (case v (the (bearer_token req)) of
         Inl e \<Rightarrow> Inr (req, [Next])
       | Inr (Failure m) \<Rightarrow> Inr (req, [Next])
       | Inr (Success u) \<Rightarrow>
           Inr (req\<lparr>user := Some u, request.accessToken := bearer_token req\<rparr>, [Next]))"
  by (simp add: optionalAuth_def try_catch_def Let_def success_def
      split: sum.splits result.splits)


lemma example_tokens:
  "bearer_token (request_with None) = None"
  "bearer_token (request_with (Some ''Bearer abc'')) = Some ''abc''"
  "bearer_token (request_with (Some ''Basic xyz'')) = Some ''xyz''"
  "bearer_token (request_with (Some ''Bearer'')) = None"
  "bearer_token (request_with (Some ''Bearer  abc'')) = Some []"
  "bearer_token (request_with (Some tab_header)) = None"
  by (simp_all add: bearer_token_def request_with_def truthy_def js_index_def tab_header_def)

subsection \<open>The strict middleware\<close>

text \<open>
  C4, as the code has it. For every request: with no token, \<^verbatim>\<open>authenticateToken\<close>
  answers 401, leaves the request as it was and does not call \<^verbatim>\<open>next\<close>. With a token
  for which \<^verbatim>\<open>verifyToken\<close> returns a failure result it answers 403 with the
  failure's message; with one for which it returns success it attaches the user and the
  raw token and calls \<^verbatim>\<open>next\<close> once. It answers 500 only when \<^verbatim>\<open>verifyToken\<close>
  itself throws. With the adapter's \<^verbatim>\<open>verifyToken\<close>, every error of the provider
  call, a network error included, is a failure result and so is answered with 403 and the
  error's message.
\<close>

theorem authenticateToken_outcomes:
  "(\<not> truthy (bearer_token req) \<longrightarrow>
      authenticateToken v req = Inr (req, [Json 401 (Failure ''Access token required'')]))
   \<and> (\<forall>m. truthy (bearer_token req) \<and> v (the (bearer_token req)) = Inr (Failure m) \<longrightarrow>
      authenticateToken v req
        = Inr (req, [Json 403 (Failure (if m \<noteq> [] then m else ''Invalid token''))]))
   \<and> (\<forall>u. truthy (bearer_token req) \<and> v (the (bearer_token req)) = Inr (Success u) \<longrightarrow>
      authenticateToken v req
        = Inr (req\<lparr>user := Some u, request.accessToken := bearer_token req\<rparr>, [Next]))
   \<and> (\<forall>e. truthy (bearer_token req) \<and> v (the (bearer_token req)) = Inl e \<longrightarrow>
      authenticateToken v req = Inr (req, [Json 500 (Failure ''Authentication failed'')]))
   \<and> (\<forall>isp e. truthy (bearer_token req)
        \<and> getUser isp \<lparr> accessToken_params.AccessToken = the (bearer_token req) \<rparr> = Inl e \<longrightarrow>
      authenticateToken (verifyToken isp) req
        = Inr (req, [Json 403 (Failure (if message e \<noteq> [] then message e
                                        else ''Token verification failed''))]))
   \<and> (\<forall>isp u. truthy (bearer_token req)
        \<and> getUser isp \<lparr> accessToken_params.AccessToken = the (bearer_token req) \<rparr> = Inr u \<longrightarrow>
      authenticateToken (verifyToken isp) req
        = Inr (req\<lparr>user := Some u, request.accessToken := bearer_token req\<rparr>, [Next]))"
proof -
  have a: "\<not> truthy (bearer_token req) \<longrightarrow>
      authenticateToken v req = Inr (req, [Json 401 (Failure ''Access token required'')])"
    by (simp add: authenticateToken_no_token)
  have b: "\<forall>m. truthy (bearer_token req) \<and> v (the (bearer_token req)) = Inr (Failure m) \<longrightarrow>
      authenticateToken v req
        = Inr (req, [Json 403 (Failure (if m \<noteq> [] then m else ''Invalid token''))])"
    by (simp add: authenticateToken_token)
  have c: "\<forall>u. truthy (bearer_token req) \<and> v (the (bearer_token req)) = Inr (Success u) \<longrightarrow>
      authenticateToken v req
        = Inr (req\<lparr>user := Some u, request.accessToken := bearer_token req\<rparr>, [Next])"
    by (simp add: authenticateToken_token)
  have d: "\<forall>e. truthy (bearer_token req) \<and> v (the (bearer_token req)) = Inl e \<longrightarrow>
      authenticateToken v req = Inr (req, [Json 500 (Failure ''Authentication failed'')])"
    by (simp add: authenticateToken_token)
  have e: "\<forall>isp e. truthy (bearer_token req)
        \<and> getUser isp \<lparr> accessToken_params.AccessToken = the (bearer_token req) \<rparr> = Inl e \<longrightarrow>
      authenticateToken (verifyToken isp) req
        = Inr (req, [Json 403 (Failure (if message e \<noteq> [] then message e
                                        else ''Token verification failed''))])"
    by (simp add: authenticateToken_token verifyToken_def try_catch_def or_else_def)
  have f: "\<forall>isp u. truthy (bearer_token req)
        \<and> getUser isp \<lparr> accessToken_params.AccessToken = the (bearer_token req) \<rparr> = Inr u \<longrightarrow>
      authenticateToken (verifyToken isp) req
        = Inr (req\<lparr>user := Some u, request.accessToken := bearer_token req\<rparr>, [Next])"
    by (simp add: authenticateToken_token verifyToken_def try_catch_def)
  from a b c d e f show ?thesis by blast
qed

theorem authenticateToken_outcomes_witness:
  "authenticateToken (verifyToken accepting_isp) (request_with None)
     = Inr (request_with None, [Json 401 (Failure ''Access token required'')])
   \<and> authenticateToken (verifyToken accepting_isp) (request_with (Some ''Bearer abc''))
     = Inr ((request_with (Some ''Bearer abc''))
              \<lparr>user := Some alice, request.accessToken := Some ''abc''\<rparr>, [Next])
   \<and> authenticateToken (verifyToken (rejecting_isp ''Access Token has expired''))
        (request_with (Some ''Bearer abc''))
     = Inr (request_with (Some ''Bearer abc''), [Json 403 (Failure ''Access Token has expired'')])
   \<and> authenticateToken (\<lambda>t. Inl (Error ''boom'')) (request_with (Some ''Bearer abc''))
     = Inr (request_with (Some ''Bearer abc''), [Json 500 (Failure ''Authentication failed'')])"
  using authenticateToken_outcomes [of "request_with None" "verifyToken accepting_isp"]
    authenticateToken_outcomes [of "request_with (Some ''Bearer abc'')" "verifyToken accepting_isp"]
    authenticateToken_outcomes [of "request_with (Some ''Bearer abc'')" "\<lambda>t. Inl (Error ''boom'')"]
  by (simp add: example_tokens truthy_def accepting_isp_def rejecting_isp_def)

text \<open>
  A network error of the provider call is answered with 403, the status of a token the
  provider refuses, and not with a server error.
\<close>

theorem authenticateToken_network_error_is_403:
  "getUser (rejecting_isp ''connect ETIMEDOUT'') \<lparr> accessToken_params.AccessToken = ''abc'' \<rparr>
     = Inl (Error ''connect ETIMEDOUT'')
   \<and> authenticateToken (verifyToken (rejecting_isp ''connect ETIMEDOUT''))
        (request_with (Some ''Bearer abc''))
     = Inr (request_with (Some ''Bearer abc''), [Json 403 (Failure ''connect ETIMEDOUT'')])"
  by (simp add: authenticateToken_token example_tokens truthy_def verifyToken_def
      try_catch_def or_else_def rejecting_isp_def)

subsection \<open>The permissive middleware\<close>

text \<open>
  C5. For every request \<^verbatim>\<open>optionalAuth\<close> sends no response and calls \<^verbatim>\<open>next\<close>
  exactly once, whether or not a token is present and whether verification succeeds, fails
  or throws. It attaches the user and the raw token exactly when a token is present and
  its verification succeeds; otherwise it leaves the request as it was.
\<close>

theorem optionalAuth_always_continues:
  "(\<exists>req'. optionalAuth v req = Inr (req', [Next]))
   \<and> (\<forall>u. truthy (bearer_token req) \<and> v (the (bearer_token req)) = Inr (Success u) \<longrightarrow>
        optionalAuth v req
          = Inr (req\<lparr>user := Some u, request.accessToken := bearer_token req\<rparr>, [Next]))
   \<and> (\<not> (truthy (bearer_token req) \<and> (\<exists>u. v (the (bearer_token req)) = Inr (Success u))) \<longrightarrow>
        optionalAuth v req = Inr (req, [Next]))"
proof (cases "truthy (bearer_token req)")
  case False
  then show ?thesis by (simp add: optionalAuth_no_token)
next
  case True
  show ?thesis
  proof (cases "v (the (bearer_token req))")
    case (Inl e)
    with True show ?thesis by (simp add: optionalAuth_token)
  next
    case (Inr r)
    with True show ?thesis by (cases r) (simp_all add: optionalAuth_token)
  qed
qed

theorem optionalAuth_always_continues_witness:
  "optionalAuth (verifyToken accepting_isp) (request_with (Some ''Bearer abc''))
     = Inr ((request_with (Some ''Bearer abc''))
              \<lparr>user := Some alice, request.accessToken := Some ''abc''\<rparr>, [Next])
   \<and> optionalAuth (verifyToken (rejecting_isp ''Access Token has expired''))
        (request_with (Some ''Bearer abc''))
     = Inr (request_with (Some ''Bearer abc''), [Next])
   \<and> optionalAuth (\<lambda>t. Inl (Error ''boom'')) (request_with (Some ''Bearer abc''))
     = Inr (request_with (Some ''Bearer abc''), [Next])
   \<and> optionalAuth (verifyToken accepting_isp) (request_with None)
     = Inr (request_with None, [Next])"
  using optionalAuth_always_continues
      [of "verifyToken accepting_isp" "request_with (Some ''Bearer abc'')"]
    optionalAuth_always_continues
      [of "verifyToken (rejecting_isp ''Access Token has expired'')"
          "request_with (Some ''Bearer abc'')"]
    optionalAuth_always_continues
      [of "\<lambda>t. Inl (Error ''boom'')" "request_with (Some ''Bearer abc'')"]
    optionalAuth_always_continues [of "verifyToken accepting_isp" "request_with None"]
  by (simp add: example_tokens truthy_def accepting_isp_def rejecting_isp_def
      verifyToken_def try_catch_def or_else_def)



subsection \<open>Token extraction\<close>

text \<open>
  C10, as the code has it. Both middlewares take as token \<^verbatim>\<open>split(' ')[1]\<close>, the text
  between the first space character of the Authorization header and the next one (or the
  end), and never look at the scheme: a header made of any scheme, one space and a
  non-empty token without spaces has that token verified. A header with no space, or
  whose second component is empty, counts as a missing token: the strict middleware
  answers 401 and the permissive one continues with the request as it was.
\<close>

theorem bearer_token_second_component:
  "(headers req ''authorization'' = None \<longrightarrow> bearer_token req = None)
   \<and> (\<forall>h. headers req ''authorization'' = Some h \<and> h \<noteq> [] \<longrightarrow>
        bearer_token req =
          (if CHR '' '' \<in> set h
           then Some (takeWhile (\<lambda>c. c \<noteq> CHR '' '') (tl (dropWhile (\<lambda>c. c \<noteq> CHR '' '') h)))
           else None))
   \<and> (\<forall>scheme t. headers req ''authorization'' = Some (scheme @ '' '' @ t)
        \<and> CHR '' '' \<notin> set scheme \<and> CHR '' '' \<notin> set t \<and> t \<noteq> [] \<longrightarrow>
        bearer_token req = Some t
        \<and> authenticateToken v req =
            (case v t of
               Inl e \<Rightarrow> Inr (req, [Json 500 (Failure ''Authentication failed'')])
             | Inr (Failure m) \<Rightarrow>
                 Inr (req, [Json 403 (Failure (if m \<noteq> [] then m else ''Invalid token''))])
             | Inr (Success u) \<Rightarrow>
                 Inr (req\<lparr>user := Some u, request.accessToken := Some t\<rparr>, [Next]))
        \<and> optionalAuth v req =
            (case v t of
               Inl e \<Rightarrow> Inr (req, [Next])
             | Inr (Failure m) \<Rightarrow> Inr (req, [Next])
             | Inr (Success u) \<Rightarrow>
                 Inr (req\<lparr>user := Some u, request.accessToken := Some t\<rparr>, [Next])))
   \<and> (\<forall>h. headers req ''authorization'' = Some h
        \<and> (CHR '' '' \<notin> set h
           \<or> takeWhile (\<lambda>c. c \<noteq> CHR '' '') (tl (dropWhile (\<lambda>c. c \<noteq> CHR '' '') h)) = []) \<longrightarrow>
        authenticateToken v req = Inr (req, [Json 401 (Failure ''Access token required'')])
        \<and> optionalAuth v req = Inr (req, [Next]))"
proof -
  have tok: "bearer_token req =
      (if CHR '' '' \<in> set h
       then Some (takeWhile (\<lambda>c. c \<noteq> CHR '' '') (tl (dropWhile (\<lambda>c. c \<noteq> CHR '' '') h)))
       else None)"
    if "headers req ''authorization'' = Some h" "h \<noteq> []" for h
    using that by (simp add: bearer_token_def truthy_def js_split_second)
  have a: "headers req ''authorization'' = None \<longrightarrow> bearer_token req = None"
    by (simp add: bearer_token_def truthy_def)
  have c1: "bearer_token req = Some t"
    if h: "headers req ''authorization'' = Some (scheme @ '' '' @ t)"
      and s: "CHR '' '' \<notin> set scheme" and t: "CHR '' '' \<notin> set t" for scheme t
  proof -
    have dw: "dropWhile (\<lambda>c. c \<noteq> CHR '' '') (scheme @ '' '' @ t) = CHR '' '' # t"
      using s by (induction scheme) auto
    have tw: "takeWhile (\<lambda>c. c \<noteq> CHR '' '') t = t"
      using t by (induction t) auto
    show ?thesis using tok [OF h] dw tw by simp
  qed
  have c: "\<forall>scheme t. headers req ''authorization'' = Some (scheme @ '' '' @ t)
        \<and> CHR '' '' \<notin> set scheme \<and> CHR '' '' \<notin> set t \<and> t \<noteq> [] \<longrightarrow>
        bearer_token req = Some t
        \<and> authenticateToken v req =
            (case v t of
               Inl e \<Rightarrow> Inr (req, [Json 500 (Failure ''Authentication failed'')])
             | Inr (Failure m) \<Rightarrow>
                 Inr (req, [Json 403 (Failure (if m \<noteq> [] then m else ''Invalid token''))])
             | Inr (Success u) \<Rightarrow>
                 Inr (req\<lparr>user := Some u, request.accessToken := Some t\<rparr>, [Next]))
        \<and> optionalAuth v req =
            (case v t of
               Inl e \<Rightarrow> Inr (req, [Next])
             | Inr (Failure m) \<Rightarrow> Inr (req, [Next])
             | Inr (Success u) \<Rightarrow>
                 Inr (req\<lparr>user := Some u, request.accessToken := Some t\<rparr>, [Next]))"
  proof (intro allI impI, elim conjE)
    fix scheme t
    assume h: "headers req ''authorization'' = Some (scheme @ '' '' @ t)"
      "CHR '' '' \<notin> set scheme" "CHR '' '' \<notin> set t" and t: "t \<noteq> []"
    have b: "bearer_token req = Some t" using h by (rule c1)
    then have tr: "truthy (bearer_token req)" using t by (simp add: truthy_def)
    show "bearer_token req = Some t
        \<and> authenticateToken v req =
            (case v t of
               Inl e \<Rightarrow> Inr (req, [Json 500 (Failure ''Authentication failed'')])
             | Inr (Failure m) \<Rightarrow>
                 Inr (req, [Json 403 (Failure (if m \<noteq> [] then m else ''Invalid token''))])
             | Inr (Success u) \<Rightarrow>
                 Inr (req\<lparr>user := Some u, request.accessToken := Some t\<rparr>, [Next]))
        \<and> optionalAuth v req =
            (case v t of
               Inl e \<Rightarrow> Inr (req, [Next])
             | Inr (Failure m) \<Rightarrow> Inr (req, [Next])
             | Inr (Success u) \<Rightarrow>
                 Inr (req\<lparr>user := Some u, request.accessToken := Some t\<rparr>, [Next]))"
      using authenticateToken_token [OF tr, of v] optionalAuth_token [OF tr, of v] b
      by (simp split: sum.splits result.splits)
  qed
  have d: "\<forall>h. headers req ''authorization'' = Some h
        \<and> (CHR '' '' \<notin> set h
           \<or> takeWhile (\<lambda>c. c \<noteq> CHR '' '') (tl (dropWhile (\<lambda>c. c \<noteq> CHR '' '') h)) = []) \<longrightarrow>
        authenticateToken v req = Inr (req, [Json 401 (Failure ''Access token required'')])
        \<and> optionalAuth v req = Inr (req, [Next])"
  proof (intro allI impI, elim conjE)
    fix h
    assume h: "headers req ''authorization'' = Some h"
      and m: "CHR '' '' \<notin> set h
           \<or> takeWhile (\<lambda>c. c \<noteq> CHR '' '') (tl (dropWhile (\<lambda>c. c \<noteq> CHR '' '') h)) = []"
    have "\<not> truthy (bearer_token req)"
    proof (cases "h = []")
      case True
      with h show ?thesis by (simp add: bearer_token_def truthy_def)
    next
      case False
      with h m tok [of h] show ?thesis by (auto simp add: truthy_def)
    qed
    then show "authenticateToken v req = Inr (req, [Json 401 (Failure ''Access token required'')])
        \<and> optionalAuth v req = Inr (req, [Next])"
      by (simp add: authenticateToken_no_token optionalAuth_no_token)
  qed
  from a tok c d show ?thesis by blast
qed

theorem bearer_token_second_component_witness:
  "authenticateToken (verifyToken accepting_isp) (request_with (Some ''Basic xyz''))
     = Inr ((request_with (Some ''Basic xyz''))
              \<lparr>user := Some alice, request.accessToken := Some ''xyz''\<rparr>, [Next])
   \<and> authenticateToken (verifyToken accepting_isp) (request_with (Some ''Bearer''))
     = Inr (request_with (Some ''Bearer''), [Json 401 (Failure ''Access token required'')])
   \<and> optionalAuth (verifyToken accepting_isp) (request_with (Some ''Bearer''))
     = Inr (request_with (Some ''Bearer''), [Next])"
proof -
  have h1: "headers (request_with (Some ''Basic xyz'')) ''authorization''
      = Some (''Basic'' @ '' '' @ ''xyz'')"
    by (simp add: request_with_def)
  have h2: "headers (request_with (Some ''Bearer'')) ''authorization'' = Some ''Bearer''"
    by (simp add: request_with_def)
  have v: "verifyToken accepting_isp ''xyz'' = Inr (Success alice)"
    by (simp add: verifyToken_def try_catch_def accepting_isp_def)
  note basic = bearer_token_second_component
    [of "request_with (Some ''Basic xyz'')" "verifyToken accepting_isp",
      THEN conjunct2, THEN conjunct2, THEN conjunct1, rule_format, of "''Basic''" "''xyz''"]
  note bare = bearer_token_second_component
    [of "request_with (Some ''Bearer'')" "verifyToken accepting_isp",
      THEN conjunct2, THEN conjunct2, THEN conjunct2, rule_format, of "''Bearer''"]
  have 1: "authenticateToken (verifyToken accepting_isp) (request_with (Some ''Basic xyz''))
     = Inr ((request_with (Some ''Basic xyz''))
              \<lparr>user := Some alice, request.accessToken := Some ''xyz''\<rparr>, [Next])"
    using basic h1 v by simp
  have 2: "authenticateToken (verifyToken accepting_isp) (request_with (Some ''Bearer''))
     = Inr (request_with (Some ''Bearer''), [Json 401 (Failure ''Access token required'')])
   \<and> optionalAuth (verifyToken accepting_isp) (request_with (Some ''Bearer''))
     = Inr (request_with (Some ''Bearer''), [Next])"
    using bare h2 by simp
  from 1 2 show ?thesis by simp
qed

text \<open>
  The separator is the single space character only. In \<^verbatim>\<open>Bearer  abc\<close> (two spaces)
  and in \<^verbatim>\<open>Bearer\<close>, tab, \<^verbatim>\<open>abc\<close> the second whitespace-separated component is
  \<^verbatim>\<open>abc\<close>, yet the strict middleware answers 401 without verifying anything, even
  with a provider that accepts every token.
\<close>

theorem second_whitespace_component_not_verified:
  "js_index (whitespace_components ''Bearer  abc'') 1 = Some ''abc''
   \<and> authenticateToken (verifyToken accepting_isp) (request_with (Some ''Bearer  abc''))
     = Inr (request_with (Some ''Bearer  abc''), [Json 401 (Failure ''Access token required'')])
   \<and> js_index (whitespace_components tab_header) 1 = Some ''abc''
   \<and> authenticateToken (verifyToken accepting_isp) (request_with (Some tab_header))
     = Inr (request_with (Some tab_header), [Json 401 (Failure ''Access token required'')])"
proof -
  have 1: "js_index (whitespace_components ''Bearer  abc'') 1 = Some ''abc''"
    by (simp add: whitespace_components_def is_whitespace_def js_index_def)
  have 2: "js_index (whitespace_components tab_header) 1 = Some ''abc''"
    by (simp add: whitespace_components_def is_whitespace_def js_index_def tab_header_def)
  have 3: "authenticateToken (verifyToken accepting_isp) (request_with (Some ''Bearer  abc''))
     = Inr (request_with (Some ''Bearer  abc''), [Json 401 (Failure ''Access token required'')])"
    by (rule authenticateToken_no_token) (simp add: example_tokens truthy_def)
  have 4: "authenticateToken (verifyToken accepting_isp) (request_with (Some tab_header))
     = Inr (request_with (Some tab_header), [Json 401 (Failure ''Access token required'')])"
    by (rule authenticateToken_no_token) (simp add: example_tokens truthy_def)
  from 1 2 3 4 show ?thesis by simp
qed

section \<open>The OIDC callback route\<close>

lemma callback_route_not_ready:
  "\<not> oidcClientReady st \<Longrightarrow> callback_route lib cfg st req = (Inr (req, [Redirect ''/login'']), st)"
  by (simp add: callback_route_def)

lemma callback_route_three_outcomes:
  "(\<exists>info toks. fst (callback_route lib cfg st req)
        = Inr (req\<lparr>session := (session req)\<lparr>userInfo := Some info, tokens := Some toks\<rparr>\<rparr>,
               [Redirect ''/'']))
   \<or> fst (callback_route lib cfg st req) = Inr (req, [Redirect ''/login''])
   \<or> fst (callback_route lib cfg st req)
        = Inr (req, [Redirect ''/login?error=authentication_failed''])"
  by (auto simp add: callback_route_def try_catch_def Let_def
      split: prod.splits sum.splits)

lemma callback_route_rejected:
  "oidcClientReady st \<Longrightarrow> getOIDCClient lib cfg st = (Inr client, st') \<Longrightarrow>
   callbackParams lib client req = Inr params \<Longrightarrow>
   callback lib client (RedirectUri cfg) params
     \<lparr> checks.nonce = session.nonce (session req),
       checks.state = session.state (session req) \<rparr> = Inl e \<Longrightarrow>
   callback_route lib cfg st req
     = (Inr (req, [Redirect ''/login?error=authentication_failed'']), st')"
  by (simp add: callback_route_def try_catch_def)

lemma callback_route_state_mismatch:
  assumes ready: "oidcClientReady st"
    and lib: "\<And>client uri params chk.
      callback_params.state params \<noteq> checks.state chk
        \<Longrightarrow> \<exists>e. callback lib client uri params chk = Inl e"
    and mismatch: "\<And>client params. callbackParams lib client req = Inr params
        \<Longrightarrow> callback_params.state params \<noteq> session.state (session req)"
  shows "fst (callback_route lib cfg st req)
     = Inr (req, [Redirect ''/login?error=authentication_failed''])"
proof (cases "getOIDCClient lib cfg st")
  case (Pair got st')
  show ?thesis
  proof (cases got)
    case (Inl e)
    with Pair ready show ?thesis by (simp add: callback_route_def try_catch_def)
  next
    case (Inr client)
    show ?thesis
    proof (cases "callbackParams lib client req")
      case (Inl e)
      with Pair Inr ready show ?thesis by (simp add: callback_route_def try_catch_def)
    next
      case params: (Inr params)
      have "callback_params.state params
          \<noteq> checks.state \<lparr> checks.nonce = session.nonce (session req),
                           checks.state = session.state (session req) \<rparr>"
        using mismatch [OF params] by simp
      from lib [OF this] obtain e where
        "callback lib client (RedirectUri cfg) params
           \<lparr> checks.nonce = session.nonce (session req),
             checks.state = session.state (session req) \<rparr> = Inl e"
        by blast
      with Pair Inr params ready show ?thesis
        by (simp add: callback_route_rejected)
    qed
  qed
qed

text \<open>
  C6, as the code has it. While the OIDC client is not ready the route redirects to
  \<^verbatim>\<open>/login\<close>, with no error indicator, and compares nothing. When it is ready and the
  library's \<^verbatim>\<open>callback\<close> rejects the request, the route redirects to
  \<^verbatim>\<open>/login?error=authentication_failed\<close> and leaves the request, and with it the
  session, as it was; a library that rejects a state different from the expected one,
  as openid-client does, rejects every request whose state differs from the session's. In
  every case the route either writes both \<^verbatim>\<open>userInfo\<close> and \<^verbatim>\<open>tokens\<close> and
  redirects to \<^verbatim>\<open>/\<close>, or writes nothing and redirects to one of the two fixed login
  targets, so no error text of the library reaches the browser.
\<close>

theorem callback_route_outcomes:
  "(\<not> oidcClientReady st \<longrightarrow>
      callback_route lib cfg st req = (Inr (req, [Redirect ''/login'']), st))
   \<and> ((\<exists>info toks. fst (callback_route lib cfg st req)
          = Inr (req\<lparr>session := (session req)\<lparr>userInfo := Some info, tokens := Some toks\<rparr>\<rparr>,
                 [Redirect ''/'']))
      \<or> fst (callback_route lib cfg st req) = Inr (req, [Redirect ''/login''])
      \<or> fst (callback_route lib cfg st req)
          = Inr (req, [Redirect ''/login?error=authentication_failed'']))
   \<and> (oidcClientReady st
       \<and> (\<forall>client uri params chk.
             callback_params.state params \<noteq> checks.state chk
               \<longrightarrow> (\<exists>e. callback lib client uri params chk = Inl e))
       \<and> (\<forall>client params. callbackParams lib client req = Inr params
               \<longrightarrow> callback_params.state params \<noteq> session.state (session req)) \<longrightarrow>
      fst (callback_route lib cfg st req)
        = Inr (req, [Redirect ''/login?error=authentication_failed'']))
   \<and> (\<forall>client st' params e.
        oidcClientReady st \<and> getOIDCClient lib cfg st = (Inr client, st')
        \<and> callbackParams lib client req = Inr params
        \<and> callback lib client (RedirectUri cfg) params
             \<lparr> checks.nonce = session.nonce (session req),
               checks.state = session.state (session req) \<rparr> = Inl e \<longrightarrow>
        fst (callback_route lib cfg st req)
          = Inr (req, [Redirect ''/login?error=authentication_failed'']))"
proof -
  have a: "\<not> oidcClientReady st \<longrightarrow>
      callback_route lib cfg st req = (Inr (req, [Redirect ''/login'']), st)"
    by (simp add: callback_route_not_ready)
  have c: "oidcClientReady st
       \<and> (\<forall>client uri params chk.
             callback_params.state params \<noteq> checks.state chk
               \<longrightarrow> (\<exists>e. callback lib client uri params chk = Inl e))
       \<and> (\<forall>client params. callbackParams lib client req = Inr params
               \<longrightarrow> callback_params.state params \<noteq> session.state (session req)) \<longrightarrow>
      fst (callback_route lib cfg st req)
        = Inr (req, [Redirect ''/login?error=authentication_failed''])"
    using callback_route_state_mismatch [of st lib req cfg] by blast
  have d: "\<forall>client st' params e.
        oidcClientReady st \<and> getOIDCClient lib cfg st = (Inr client, st')
        \<and> callbackParams lib client req = Inr params
        \<and> callback lib client (RedirectUri cfg) params
             \<lparr> checks.nonce = session.nonce (session req),
               checks.state = session.state (session req) \<rparr> = Inl e \<longrightarrow>
        fst (callback_route lib cfg st req)
          = Inr (req, [Redirect ''/login?error=authentication_failed''])"
    by (auto simp add: callback_route_rejected)
  from a callback_route_three_outcomes [of lib cfg st req] c d show ?thesis by blast
qed

theorem callback_route_outcomes_witness:
  "fst (callback_route example_lib plain_config ready_state callback_request)
     = Inr (callback_request, [Redirect ''/login?error=authentication_failed''])"
proof -
  have lib: "\<forall>client uri params chk.
      callback_params.state params \<noteq> checks.state chk
        \<longrightarrow> (\<exists>e. callback example_lib client uri params chk = Inl e)"
    by (simp add: example_lib_def)
  have mismatch: "\<forall>client params. callbackParams example_lib client callback_request = Inr params
      \<longrightarrow> callback_params.state params \<noteq> session.state (session callback_request)"
    by (auto simp add: example_lib_def callback_request_def)
  have ready: "oidcClientReady ready_state"
    by (simp add: ready_state_def)
  from callback_route_outcomes [of ready_state example_lib plain_config callback_request]
    ready lib mismatch show ?thesis by blast
qed

text \<open>
  Before the client is ready, a callback whose state \<^verbatim>\<open>tampered\<close> differs from the
  session's \<^verbatim>\<open>s1\<close> is redirected to \<^verbatim>\<open>/login\<close> with no error indicator.
\<close>

theorem callback_not_ready_redirects_without_indicator:
  "callbackParams example_lib example_client callback_request
     = Inr \<lparr> code = Some ''c0de'', callback_params.state = Some ''tampered'' \<rparr>
   \<and> session.state (session callback_request) = Some ''s1''
   \<and> callback_route example_lib plain_config not_ready_state callback_request
     = (Inr (callback_request, [Redirect ''/login'']), not_ready_state)"
  by (simp add: callback_route_def example_lib_def callback_request_def not_ready_state_def)

section \<open>The OIDC client singleton under concurrent callers\<close>

lemma step_Call_process:
  "process (step cfg (Call i) sys) =
    (if oidcClient (process sys) = None \<and> IssuerUrl cfg \<noteq> []
     then (process sys)\<lparr>discovered := discovered (process sys) @ [IssuerUrl cfg]\<rparr>
     else process sys)"
  by (simp add: getOIDCClient_start_def initializeOIDCClient_start_def truthy_def
      split: option.splits)

lemma step_Call_callers:
  "callers (step cfg (Call i) sys) =
    (callers sys)(i \<mapsto>
      (case oidcClient (process sys) of
         Some c \<Rightarrow> Resolved c
       | None \<Rightarrow>
           if IssuerUrl cfg \<noteq> [] then Pending
           else Rejected (Error
             ''COGNITO_ISSUER_URL is not configured. Please set it in your .env file.'')))"
  by (simp add: getOIDCClient_start_def initializeOIDCClient_start_def truthy_def
      split: option.splits)

lemma run_snoc: "run cfg (evs @ [ev]) sys = step cfg ev (run cfg evs sys)"
  by (simp add: run_def)

lemma run_first_callers:
  assumes "IssuerUrl cfg \<noteq> []" and "oidcClient (process sys) = None"
  shows "oidcClient (process (run cfg (map Call [0..<n]) sys)) = None
    \<and> discovered (process (run cfg (map Call [0..<n]) sys))
        = discovered (process sys) @ replicate n (IssuerUrl cfg)
    \<and> (\<forall>i<n. callers (run cfg (map Call [0..<n]) sys) i = Some Pending)"
proof (induction n)
  case 0
  show ?case using assms by (simp add: run_def)
next
  case (Suc n)
  let ?s = "run cfg (map Call [0..<n]) sys"
  have r: "run cfg (map Call [0..<Suc n]) sys = step cfg (Call n) ?s"
    by (simp add: run_snoc)
  from Suc have none: "oidcClient (process ?s) = None"
    and disc: "discovered (process ?s) = discovered (process sys) @ replicate n (IssuerUrl cfg)"
    and pend: "\<forall>i<n. callers ?s i = Some Pending"
    by simp_all
  have 1: "oidcClient (process (step cfg (Call n) ?s)) = None"
    using none assms(1) by (simp add: step_Call_process del: step.simps)
  have 2: "discovered (process (step cfg (Call n) ?s))
      = discovered (process sys) @ replicate (Suc n) (IssuerUrl cfg)"
    using none assms(1) disc
    by (simp add: step_Call_process replicate_append_same del: step.simps)
  have 3: "\<forall>i<Suc n. callers (step cfg (Call n) ?s) i = Some Pending"
    using none assms(1) pend by (simp add: step_Call_callers less_Suc_eq del: step.simps)
  from 1 2 3 show ?case unfolding r by blast
qed

text \<open>
  C1, as the code has it. \<^verbatim>\<open>getOIDCClient\<close> is guarded by the null test of
  \<^verbatim>\<open>oidcClient\<close> alone. A call starts a discovery, one call of
  \<^verbatim>\<open>Issuer.discover\<close>, exactly when no client is cached at that moment and the issuer
  URL is set. So \<open>n\<close> callers that call before any discovery has settled start \<open>n\<close>
  discoveries, and each awaits its own. A call made when a client is cached returns that
  client and starts none; a discovery that settles with an issuer caches the client and
  starts none.
\<close>

theorem getOIDCClient_discovery_calls:
  "process (step cfg (Call i) sys) =
     (if oidcClient (process sys) = None \<and> IssuerUrl cfg \<noteq> []
      then (process sys)\<lparr>discovered := discovered (process sys) @ [IssuerUrl cfg]\<rparr>
      else process sys)
   \<and> (IssuerUrl cfg \<noteq> [] \<and> oidcClient (process sys) = None \<longrightarrow>
        discovered (process (run cfg (map Call [0..<n]) sys))
          = discovered (process sys) @ replicate n (IssuerUrl cfg)
        \<and> (\<forall>j<n. callers (run cfg (map Call [0..<n]) sys) j = Some Pending))
   \<and> (\<forall>c. oidcClient (process sys) = Some c \<longrightarrow>
        step cfg (Call i) sys = sys\<lparr>callers := (callers sys)(i \<mapsto> Resolved c)\<rparr>)
   \<and> (\<forall>iss. callers sys i = Some Pending \<longrightarrow>
        oidcClient (process (step cfg (Settle i (Inr iss)) sys)) \<noteq> None
        \<and> discovered (process (step cfg (Settle i (Inr iss)) sys)) = discovered (process sys))"
proof -
  have b: "IssuerUrl cfg \<noteq> [] \<and> oidcClient (process sys) = None \<longrightarrow>
        discovered (process (run cfg (map Call [0..<n]) sys))
          = discovered (process sys) @ replicate n (IssuerUrl cfg)
        \<and> (\<forall>j<n. callers (run cfg (map Call [0..<n]) sys) j = Some Pending)"
    using run_first_callers [of cfg sys n] by blast
  have c: "\<forall>c. oidcClient (process sys) = Some c \<longrightarrow>
        step cfg (Call i) sys = sys\<lparr>callers := (callers sys)(i \<mapsto> Resolved c)\<rparr>"
    by (simp add: getOIDCClient_start_def)
  have d: "\<forall>iss. callers sys i = Some Pending \<longrightarrow>
        oidcClient (process (step cfg (Settle i (Inr iss)) sys)) \<noteq> None
        \<and> discovered (process (step cfg (Settle i (Inr iss)) sys)) = discovered (process sys)"
    by (simp add: initializeOIDCClient_resume_def Let_def)
  from step_Call_process [of cfg i sys] b c d show ?thesis by blast
qed

theorem getOIDCClient_discovery_calls_witness:
  "discovered (process (run plain_config (map Call [0..<3]) initial_system))
     = replicate 3 ''https://cognito-idp.us-east-1.amazonaws.com/us-east-1_mhu6JL75g''
   \<and> step plain_config (Call 7) \<lparr> process = ready_state, callers = Map.empty \<rparr>
     = \<lparr> process = ready_state, callers = [7 \<mapsto> Resolved example_client] \<rparr>
   \<and> oidcClient (process (step plain_config (Settle 0 (Inr [(''issuer'', ''https://issuer'')]))
        \<lparr> process = not_ready_state, callers = [0 \<mapsto> Pending] \<rparr>)) \<noteq> None"
proof -
  have u: "IssuerUrl plain_config \<noteq> []" by (simp add: plain_config_simps)
  have n: "oidcClient (process initial_system) = None" by (simp add: initial_system_def)
  have d: "discovered (process initial_system) = []" by (simp add: initial_system_def)
  from getOIDCClient_discovery_calls [of plain_config 0 initial_system 3] u n
  have "discovered (process (run plain_config (map Call [0..<3]) initial_system))
          = discovered (process initial_system) @ replicate 3 (IssuerUrl plain_config)"
    by blast
  then have 1: "discovered (process (run plain_config (map Call [0..<3]) initial_system))
     = replicate 3 ''https://cognito-idp.us-east-1.amazonaws.com/us-east-1_mhu6JL75g''"
    by (simp only: d plain_config_simps append_Nil)
  have c: "oidcClient (process \<lparr> process = ready_state, callers = Map.empty \<rparr>)
      = Some example_client"
    by (simp add: ready_state_def)
  from getOIDCClient_discovery_calls
      [of plain_config 7 "\<lparr> process = ready_state, callers = Map.empty \<rparr>" 0] c
  have 2: "step plain_config (Call 7) \<lparr> process = ready_state, callers = Map.empty \<rparr>
     = \<lparr> process = ready_state, callers = [7 \<mapsto> Resolved example_client] \<rparr>"
    by simp
  have p: "callers \<lparr> process = not_ready_state, callers = [0 \<mapsto> Pending] \<rparr> 0 = Some Pending"
    by simp
  from getOIDCClient_discovery_calls
      [of plain_config 0 "\<lparr> process = not_ready_state, callers = [0 \<mapsto> Pending] \<rparr>" 0] p
  have 3: "oidcClient (process (step plain_config
        (Settle 0 (Inr [(''issuer'', ''https://issuer'')]))
        \<lparr> process = not_ready_state, callers = [0 \<mapsto> Pending] \<rparr>)) \<noteq> None"
    by blast
  from 1 2 3 show ?thesis by blast
qed

text \<open>
  Two callers that both call before the first discovery has settled issue two discovery
  calls, and both are left pending.
\<close>

theorem two_first_callers_discover_twice:
  "discovered (process (run plain_config [Call 0, Call 1] initial_system))
     = [''https://cognito-idp.us-east-1.amazonaws.com/us-east-1_mhu6JL75g'',
        ''https://cognito-idp.us-east-1.amazonaws.com/us-east-1_mhu6JL75g'']
   \<and> callers (run plain_config [Call 0, Call 1] initial_system) 0 = Some Pending
   \<and> callers (run plain_config [Call 0, Call 1] initial_system) 1 = Some Pending"
  by (simp add: run_def step_Call_process step_Call_callers getOIDCClient_start_def
      initializeOIDCClient_start_def truthy_def initial_system_def plain_config_simps)

end
